theory Spec2Isabelle
  imports Main "HOL-Library.Sublist"
begin

section \<open>Python values\<close>

text \<open>
  A Python \<^verbatim>\<open>str\<close> is a sequence of Unicode code points, so it is modelled as a list of
  natural numbers (one per code point), not as a byte string: \<^verbatim>\<open>str.strip()\<close>, and the
  classes \<^verbatim>\<open>\s\<close> and \<^verbatim>\<open>\d\<close> of \<^verbatim>\<open>re\<close> on a \<^verbatim>\<open>str\<close> pattern, work on code points and
  know the non-ASCII white space and decimal digits. ASCII literals of the source are
  written \<open>u ''...''\<close>; the Chinese literals are written as their code points.
\<close>

type_synonym ustr = "nat list"

definition u :: "string \<Rightarrow> ustr" where
  "u s = map of_char s"

text \<open>
  \<^verbatim>\<open>str.isspace\<close>, which is also the class \<^verbatim>\<open>\s\<close> and what \<^verbatim>\<open>strip()\<close> removes:
  U+0009..U+000D, U+001C..U+0020, U+0085, U+00A0, U+1680, U+2000..U+200A, U+2028,
  U+2029, U+202F, U+205F, U+3000.
\<close>

definition is_space :: "nat \<Rightarrow> bool" where
  "is_space c =
     ((9 \<le> c \<and> c \<le> 13) \<or> (28 \<le> c \<and> c \<le> 32) \<or> c = 133 \<or> c = 160 \<or> c = 5760 \<or>
      (8192 \<le> c \<and> c \<le> 8202) \<or> c = 8232 \<or> c = 8233 \<or> c = 8239 \<or> c = 8287 \<or>
      c = 12288)"

text \<open>
  The class \<^verbatim>\<open>\d\<close> on a \<^verbatim>\<open>str\<close> pattern is the Unicode category Nd. Every run of that
  category is a block of ten code points (or several such blocks side by side); the
  list holds the first code point of each block, as of Unicode 14.0 (CPython 3.11).
  The ASCII digits are the block that starts at 48.
\<close>

definition digit_blocks :: "nat list" where
  "digit_blocks =
     [48, 1632, 1776, 1984, 2406, 2534, 2662, 2790, 2918, 3046, 3174, 3302, 3430, 3558,
      3664, 3792, 3872, 4160, 4240, 6112, 6160, 6470, 6608, 6784, 6800, 6992, 7088, 7232,
      7248, 42528, 43216, 43264, 43472, 43504, 43600, 44016, 65296, 66720, 68912, 69734,
      69872, 69942, 70096, 70384, 70736, 70864, 71248, 71360, 71472, 71904, 72016, 72784,
      73040, 73120, 92768, 92864, 93008, 120782, 120792, 120802, 120812, 120822, 123200,
      123632, 125264, 130032]"

definition is_digit :: "nat \<Rightarrow> bool" where
  "is_digit c = list_ex (\<lambda>b. b \<le> c \<and> c < b + 10) digit_blocks"

text \<open>\<^verbatim>\<open>s.strip()\<close> with no argument.\<close>

definition strip :: "ustr \<Rightarrow> ustr" where
  "strip s = rev (dropWhile is_space (rev (dropWhile is_space s)))"

text \<open>\<^verbatim>\<open>p in s\<close> on two strings: \<open>p\<close> occurs in \<open>s\<close> as a contiguous piece.\<close>

fun contains :: "ustr \<Rightarrow> ustr \<Rightarrow> bool" where
  "contains p [] = (p = [])"
| "contains p (c # cs) = (prefix p (c # cs) \<or> contains p cs)"

section \<open>The identifier extractor (douyin\_api.py)\<close>

text \<open>
  \<^verbatim>\<open>re.search(r'(https?://[^\s]+)', s)\<close>. At one position the pattern reads \<^verbatim>\<open>http\<close>, an
  optional \<^verbatim>\<open>s\<close>, \<^verbatim>\<open>://\<close> and then the longest run of characters that are not white
  space, which must not be empty. \<^verbatim>\<open>search\<close> takes the leftmost position that matches.
\<close>

definition url_body :: "ustr \<Rightarrow> ustr \<Rightarrow> ustr option" where
  "url_body scheme rest =
     (let b = takeWhile (\<lambda>c. \<not> is_space c) rest
      in if b = [] then None else Some (scheme @ b))"

definition match_url_at :: "ustr \<Rightarrow> ustr option" where
  "match_url_at s =
     (if prefix (u ''https://'') s then url_body (u ''https://'') (drop 8 s)
      else if prefix (u ''http://'') s then url_body (u ''http://'') (drop 7 s)
      else None)"

fun search_url :: "ustr \<Rightarrow> ustr option" where
  "search_url [] = None"
| "search_url (c # cs) =
     (case match_url_at (c # cs) of Some m \<Rightarrow> Some m | None \<Rightarrow> search_url cs)"

text \<open>
  \<^verbatim>\<open>_resolve_redirects\<close>. The HEAD request is the parameter \<open>head\<close>: the final URL of the
  redirect chain, or \<open>None\<close> when \<^verbatim>\<open>requests.head\<close> raises.
\<close>

definition resolve_redirects :: "(ustr \<Rightarrow> ustr option) \<Rightarrow> ustr \<Rightarrow> ustr" where
  "resolve_redirects head url =
     (if contains (u ''v.douyin.com'') url \<or> contains (u ''douyin.com/share/'') url
      then (case head url of Some final \<Rightarrow> final | None \<Rightarrow> url)
      else url)"

text \<open>
  Step 1 of \<^verbatim>\<open>_extract_aweme_id\<close>: the string that the digit search reads. When the
  stripped input holds a URL, the (redirect-resolved) URL alone replaces the input.
\<close>

definition resolved_input :: "(ustr \<Rightarrow> ustr option) \<Rightarrow> ustr \<Rightarrow> ustr" where
  "resolved_input head input_str =
     (let s = strip input_str
      in if contains (u ''http'') s
         then (case search_url s of
                 Some url \<Rightarrow> resolve_redirects head url
               | None \<Rightarrow> s)
         else s)"

text \<open>\<^verbatim>\<open>re.search(r'\d{19}', s)\<close>: the leftmost position where 19 digits stand.\<close>

definition digits19_at :: "ustr \<Rightarrow> ustr option" where
  "digits19_at s =
     (if 19 \<le> length s \<and> list_all is_digit (take 19 s) then Some (take 19 s) else None)"

fun search_digits19 :: "ustr \<Rightarrow> ustr option" where
  "search_digits19 [] = None"
| "search_digits19 (c # cs) =
     (case digits19_at (c # cs) of Some m \<Rightarrow> Some m | None \<Rightarrow> search_digits19 cs)"

text \<open>
  \<^verbatim>\<open>re.search(lit + r'(\d+)', s).group(1)\<close> for a literal \<open>lit\<close>: at the leftmost
  position where \<open>lit\<close> is followed by a digit, the longest run of digits after it.
\<close>

definition group_digits_at :: "ustr \<Rightarrow> ustr \<Rightarrow> ustr option" where
  "group_digits_at lit s =
     (if prefix lit s
      then (let d = takeWhile is_digit (drop (length lit) s)
            in if d = [] then None else Some d)
      else None)"

fun search_group :: "ustr \<Rightarrow> ustr \<Rightarrow> ustr option" where
  "search_group lit [] = None"
| "search_group lit (c # cs) =
     (case group_digits_at lit (c # cs) of
        Some d \<Rightarrow> Some d
      | None \<Rightarrow> search_group lit cs)"

definition legacy_patterns :: "ustr list" where
  "legacy_patterns = [u ''/video/'', u ''aweme_id='', u ''modal_id='']"

fun first_legacy :: "ustr list \<Rightarrow> ustr \<Rightarrow> ustr option" where
  "first_legacy [] s = None"
| "first_legacy (p # ps) s =
     (case search_group p s of Some d \<Rightarrow> Some d | None \<Rightarrow> first_legacy ps s)"

definition extract_aweme_id :: "(ustr \<Rightarrow> ustr option) \<Rightarrow> ustr \<Rightarrow> ustr option" where
  "extract_aweme_id head input_str =
     (let s = resolved_input head input_str
      in case search_digits19 s of
           Some m \<Rightarrow> Some m
         | None \<Rightarrow> first_legacy legacy_patterns s)"

text \<open>\<open>window19 s i\<close>: 19 digits stand in \<open>s\<close> from position \<open>i\<close> on.\<close>

definition window19 :: "ustr \<Rightarrow> nat \<Rightarrow> bool" where
  "window19 s i = (i + 19 \<le> length s \<and> list_all is_digit (take 19 (drop i s)))"

text \<open>An HTTP layer in which every HEAD request fails.\<close>

definition no_redirect :: "ustr \<Rightarrow> ustr option" where
  "no_redirect url = None"

text \<open>Two inputs of the extractor, used to run it.\<close>

definition url_with_19_digits :: ustr where
  "url_with_19_digits =
     u ''  look https://www.douyin.com/video/7567352731951164082?previous=123  ''"

definition url_with_short_id :: ustr where
  "url_with_short_id = u ''https://www.douyin.com/video/123456''"





section \<open>JSON values as Python sees them\<close>

text \<open>
  What \<^verbatim>\<open>json\<close> hands to the program: \<^verbatim>\<open>None\<close>, booleans, integers, strings, lists and
  dictionaries (in insertion order, keys are strings). Floating-point numbers are
  left out.
\<close>

datatype jv =
  JNull | JBool bool | JInt int | JStr ustr | JList "jv list" | JDict "(ustr \<times> jv) list"

text \<open>\<^verbatim>\<open>bool(v)\<close>.\<close>

fun truthy :: "jv \<Rightarrow> bool" where
  "truthy JNull = False"
| "truthy (JBool b) = b"
| "truthy (JInt n) = (n \<noteq> 0)"
| "truthy (JStr s) = (s \<noteq> [])"
| "truthy (JList xs) = (xs \<noteq> [])"
| "truthy (JDict kvs) = (kvs \<noteq> [])"

text \<open>
  \<^verbatim>\<open>str(v)\<close>. A string is itself; anything else is written as \<^verbatim>\<open>repr\<close> writes it: decimal
  integers, \<^verbatim>\<open>True\<close>, \<^verbatim>\<open>False\<close>, \<^verbatim>\<open>None\<close>, and lists and dictionaries with their
  members' \<^verbatim>\<open>repr\<close>. The \<^verbatim>\<open>repr\<close> of a string picks the quote (a double quote only when
  the string has a single quote and no double quote) and escapes the quote, the
  backslash, the ASCII control characters and, from U+0080 on, every code point that
  \<^verbatim>\<open>str.isprintable\<close> rejects: as \<^verbatim>\<open>\xhh\<close> up to U+00FF, \<^verbatim>\<open>\uhhhh\<close> up to U+FFFF and
  \<^verbatim>\<open>\Uhhhhhhhh\<close> above, in lower-case hexadecimal. The code points from U+0080 on that
  are not printable (the Unicode categories Cc, Cf, Cs, Co, Cn, Zl, Zp and Zs) are
  listed as inclusive ranges, as of Unicode 14.0 (CPython 3.11).
\<close>

fun digits_of :: "nat \<Rightarrow> ustr" where
  "digits_of n = (if n < 10 then [48 + n] else digits_of (n div 10) @ [48 + n mod 10])"

declare digits_of.simps [simp del]

definition str_int :: "int \<Rightarrow> ustr" where
  "str_int i = (if i < 0 then 45 # digits_of (nat (- i)) else digits_of (nat i))"

definition repr_quote :: "ustr \<Rightarrow> nat" where
  "repr_quote s = (if 39 \<in> set s \<and> 34 \<notin> set s then 34 else 39)"

definition hex_digit :: "nat \<Rightarrow> nat" where
  "hex_digit d = (if d < 10 then 48 + d else 87 + d)"

definition nonprintable_ranges :: "(nat \<times> nat) list" where
  "nonprintable_ranges =
     [(128, 160), (173, 173), (888, 889), (896, 899), (907, 907), (909, 909), (930, 930),
      (1328, 1328), (1367, 1368), (1419, 1420), (1424, 1424), (1480, 1487), (1515, 1518),
      (1525, 1541), (1564, 1564), (1757, 1757), (1806, 1807), (1867, 1868), (1970, 1983),
      (2043, 2044), (2094, 2095), (2111, 2111), (2140, 2141), (2143, 2143), (2155, 2159),
      (2191, 2199), (2274, 2274), (2436, 2436), (2445, 2446), (2449, 2450), (2473, 2473),
      (2481, 2481), (2483, 2485), (2490, 2491), (2501, 2502), (2505, 2506), (2511, 2518),
      (2520, 2523), (2526, 2526), (2532, 2533), (2559, 2560), (2564, 2564), (2571, 2574),
      (2577, 2578), (2601, 2601), (2609, 2609), (2612, 2612), (2615, 2615), (2618, 2619),
      (2621, 2621), (2627, 2630), (2633, 2634), (2638, 2640), (2642, 2648), (2653, 2653),
      (2655, 2661), (2679, 2688), (2692, 2692), (2702, 2702), (2706, 2706), (2729, 2729),
      (2737, 2737), (2740, 2740), (2746, 2747), (2758, 2758), (2762, 2762), (2766, 2767),
      (2769, 2783), (2788, 2789), (2802, 2808), (2816, 2816), (2820, 2820), (2829, 2830),
      (2833, 2834), (2857, 2857), (2865, 2865), (2868, 2868), (2874, 2875), (2885, 2886),
      (2889, 2890), (2894, 2900), (2904, 2907), (2910, 2910), (2916, 2917), (2936, 2945),
      (2948, 2948), (2955, 2957), (2961, 2961), (2966, 2968), (2971, 2971), (2973, 2973),
      (2976, 2978), (2981, 2983), (2987, 2989), (3002, 3005), (3011, 3013), (3017, 3017),
      (3022, 3023), (3025, 3030), (3032, 3045), (3067, 3071), (3085, 3085), (3089, 3089),
      (3113, 3113), (3130, 3131), (3141, 3141), (3145, 3145), (3150, 3156), (3159, 3159),
      (3163, 3164), (3166, 3167), (3172, 3173), (3184, 3190), (3213, 3213), (3217, 3217),
      (3241, 3241), (3252, 3252), (3258, 3259), (3269, 3269), (3273, 3273), (3278, 3284),
      (3287, 3292), (3295, 3295), (3300, 3301), (3312, 3312), (3315, 3327), (3341, 3341),
      (3345, 3345), (3397, 3397), (3401, 3401), (3408, 3411), (3428, 3429), (3456, 3456),
      (3460, 3460), (3479, 3481), (3506, 3506), (3516, 3516), (3518, 3519), (3527, 3529),
      (3531, 3534), (3541, 3541), (3543, 3543), (3552, 3557), (3568, 3569), (3573, 3584),
      (3643, 3646), (3676, 3712), (3715, 3715), (3717, 3717), (3723, 3723), (3748, 3748),
      (3750, 3750), (3774, 3775), (3781, 3781), (3783, 3783), (3790, 3791), (3802, 3803),
      (3808, 3839), (3912, 3912), (3949, 3952), (3992, 3992), (4029, 4029), (4045, 4045),
      (4059, 4095), (4294, 4294), (4296, 4300), (4302, 4303), (4681, 4681), (4686, 4687),
      (4695, 4695), (4697, 4697), (4702, 4703), (4745, 4745), (4750, 4751), (4785, 4785),
      (4790, 4791), (4799, 4799), (4801, 4801), (4806, 4807), (4823, 4823), (4881, 4881),
      (4886, 4887), (4955, 4956), (4989, 4991), (5018, 5023), (5110, 5111), (5118, 5119),
      (5760, 5760), (5789, 5791), (5881, 5887), (5910, 5918), (5943, 5951), (5972, 5983),
      (5997, 5997), (6001, 6001), (6004, 6015), (6110, 6111), (6122, 6127), (6138, 6143),
      (6158, 6158), (6170, 6175), (6265, 6271), (6315, 6319), (6390, 6399), (6431, 6431),
      (6444, 6447), (6460, 6463), (6465, 6467), (6510, 6511), (6517, 6527), (6572, 6575),
      (6602, 6607), (6619, 6621), (6684, 6685), (6751, 6751), (6781, 6782), (6794, 6799),
      (6810, 6815), (6830, 6831), (6863, 6911), (6989, 6991), (7039, 7039), (7156, 7163),
      (7224, 7226), (7242, 7244), (7305, 7311), (7355, 7356), (7368, 7375), (7419, 7423),
      (7958, 7959), (7966, 7967), (8006, 8007), (8014, 8015), (8024, 8024), (8026, 8026),
      (8028, 8028), (8030, 8030), (8062, 8063), (8117, 8117), (8133, 8133), (8148, 8149),
      (8156, 8156), (8176, 8177), (8181, 8181), (8191, 8207), (8232, 8239), (8287, 8303),
      (8306, 8307), (8335, 8335), (8349, 8351), (8385, 8399), (8433, 8447), (8588, 8591),
      (9255, 9279), (9291, 9311), (11124, 11125), (11158, 11158), (11508, 11512),
      (11558, 11558), (11560, 11564), (11566, 11567), (11624, 11630), (11633, 11646),
      (11671, 11679), (11687, 11687), (11695, 11695), (11703, 11703), (11711, 11711),
      (11719, 11719), (11727, 11727), (11735, 11735), (11743, 11743), (11870, 11903),
      (11930, 11930), (12020, 12031), (12246, 12271), (12284, 12288), (12352, 12352),
      (12439, 12440), (12544, 12548), (12592, 12592), (12687, 12687), (12772, 12783),
      (12831, 12831), (42125, 42127), (42183, 42191), (42540, 42559), (42744, 42751),
      (42955, 42959), (42962, 42962), (42964, 42964), (42970, 42993), (43053, 43055),
      (43066, 43071), (43128, 43135), (43206, 43213), (43226, 43231), (43348, 43358),
      (43389, 43391), (43470, 43470), (43482, 43485), (43519, 43519), (43575, 43583),
      (43598, 43599), (43610, 43611), (43715, 43738), (43767, 43776), (43783, 43784),
      (43791, 43792), (43799, 43807), (43815, 43815), (43823, 43823), (43884, 43887),
      (44014, 44015), (44026, 44031), (55204, 55215), (55239, 55242), (55292, 63743),
      (64110, 64111), (64218, 64255), (64263, 64274), (64280, 64284), (64311, 64311),
      (64317, 64317), (64319, 64319), (64322, 64322), (64325, 64325), (64451, 64466),
      (64912, 64913), (64968, 64974), (64976, 65007), (65050, 65055), (65107, 65107),
      (65127, 65127), (65132, 65135), (65141, 65141), (65277, 65280), (65471, 65473),
      (65480, 65481), (65488, 65489), (65496, 65497), (65501, 65503), (65511, 65511),
      (65519, 65531), (65534, 65535), (65548, 65548), (65575, 65575), (65595, 65595),
      (65598, 65598), (65614, 65615), (65630, 65663), (65787, 65791), (65795, 65798),
      (65844, 65846), (65935, 65935), (65949, 65951), (65953, 65999), (66046, 66175),
      (66205, 66207), (66257, 66271), (66300, 66303), (66340, 66348), (66379, 66383),
      (66427, 66431), (66462, 66462), (66500, 66503), (66518, 66559), (66718, 66719),
      (66730, 66735), (66772, 66775), (66812, 66815), (66856, 66863), (66916, 66926),
      (66939, 66939), (66955, 66955), (66963, 66963), (66966, 66966), (66978, 66978),
      (66994, 66994), (67002, 67002), (67005, 67071), (67383, 67391), (67414, 67423),
      (67432, 67455), (67462, 67462), (67505, 67505), (67515, 67583), (67590, 67591),
      (67593, 67593), (67638, 67638), (67641, 67643), (67645, 67646), (67670, 67670),
      (67743, 67750), (67760, 67807), (67827, 67827), (67830, 67834), (67868, 67870),
      (67898, 67902), (67904, 67967), (68024, 68027), (68048, 68049), (68100, 68100),
      (68103, 68107), (68116, 68116), (68120, 68120), (68150, 68151), (68155, 68158),
      (68169, 68175), (68185, 68191), (68256, 68287), (68327, 68330), (68343, 68351),
      (68406, 68408), (68438, 68439), (68467, 68471), (68498, 68504), (68509, 68520),
      (68528, 68607), (68681, 68735), (68787, 68799), (68851, 68857), (68904, 68911),
      (68922, 69215), (69247, 69247), (69290, 69290), (69294, 69295), (69298, 69375),
      (69416, 69423), (69466, 69487), (69514, 69551), (69580, 69599), (69623, 69631),
      (69710, 69713), (69750, 69758), (69821, 69821), (69827, 69839), (69865, 69871),
      (69882, 69887), (69941, 69941), (69960, 69967), (70007, 70015), (70112, 70112),
      (70133, 70143), (70162, 70162), (70207, 70271), (70279, 70279), (70281, 70281),
      (70286, 70286), (70302, 70302), (70314, 70319), (70379, 70383), (70394, 70399),
      (70404, 70404), (70413, 70414), (70417, 70418), (70441, 70441), (70449, 70449),
      (70452, 70452), (70458, 70458), (70469, 70470), (70473, 70474), (70478, 70479),
      (70481, 70486), (70488, 70492), (70500, 70501), (70509, 70511), (70517, 70655),
      (70748, 70748), (70754, 70783), (70856, 70863), (70874, 71039), (71094, 71095),
      (71134, 71167), (71237, 71247), (71258, 71263), (71277, 71295), (71354, 71359),
      (71370, 71423), (71451, 71452), (71468, 71471), (71495, 71679), (71740, 71839),
      (71923, 71934), (71943, 71944), (71946, 71947), (71956, 71956), (71959, 71959),
      (71990, 71990), (71993, 71994), (72007, 72015), (72026, 72095), (72104, 72105),
      (72152, 72153), (72165, 72191), (72264, 72271), (72355, 72367), (72441, 72703),
      (72713, 72713), (72759, 72759), (72774, 72783), (72813, 72815), (72848, 72849),
      (72872, 72872), (72887, 72959), (72967, 72967), (72970, 72970), (73015, 73017),
      (73019, 73019), (73022, 73022), (73032, 73039), (73050, 73055), (73062, 73062),
      (73065, 73065), (73103, 73103), (73106, 73106), (73113, 73119), (73130, 73439),
      (73465, 73647), (73649, 73663), (73714, 73726), (74650, 74751), (74863, 74863),
      (74869, 74879), (75076, 77711), (77811, 77823), (78895, 82943), (83527, 92159),
      (92729, 92735), (92767, 92767), (92778, 92781), (92863, 92863), (92874, 92879),
      (92910, 92911), (92918, 92927), (92998, 93007), (93018, 93018), (93026, 93026),
      (93048, 93052), (93072, 93759), (93851, 93951), (94027, 94030), (94088, 94094),
      (94112, 94175), (94181, 94191), (94194, 94207), (100344, 100351), (101590, 101631),
      (101641, 110575), (110580, 110580), (110588, 110588), (110591, 110591),
      (110883, 110927), (110931, 110947), (110952, 110959), (111356, 113663),
      (113771, 113775), (113789, 113791), (113801, 113807), (113818, 113819),
      (113824, 118527), (118574, 118575), (118599, 118607), (118724, 118783),
      (119030, 119039), (119079, 119080), (119155, 119162), (119275, 119295),
      (119366, 119519), (119540, 119551), (119639, 119647), (119673, 119807),
      (119893, 119893), (119965, 119965), (119968, 119969), (119971, 119972),
      (119975, 119976), (119981, 119981), (119994, 119994), (119996, 119996),
      (120004, 120004), (120070, 120070), (120075, 120076), (120085, 120085),
      (120093, 120093), (120122, 120122), (120127, 120127), (120133, 120133),
      (120135, 120137), (120145, 120145), (120486, 120487), (120780, 120781),
      (121484, 121498), (121504, 121504), (121520, 122623), (122655, 122879),
      (122887, 122887), (122905, 122906), (122914, 122914), (122917, 122917),
      (122923, 123135), (123181, 123183), (123198, 123199), (123210, 123213),
      (123216, 123535), (123567, 123583), (123642, 123646), (123648, 124895),
      (124903, 124903), (124908, 124908), (124911, 124911), (124927, 124927),
      (125125, 125126), (125143, 125183), (125260, 125263), (125274, 125277),
      (125280, 126064), (126133, 126208), (126270, 126463), (126468, 126468),
      (126496, 126496), (126499, 126499), (126501, 126502), (126504, 126504),
      (126515, 126515), (126520, 126520), (126522, 126522), (126524, 126529),
      (126531, 126534), (126536, 126536), (126538, 126538), (126540, 126540),
      (126544, 126544), (126547, 126547), (126549, 126550), (126552, 126552),
      (126554, 126554), (126556, 126556), (126558, 126558), (126560, 126560),
      (126563, 126563), (126565, 126566), (126571, 126571), (126579, 126579),
      (126584, 126584), (126589, 126589), (126591, 126591), (126602, 126602),
      (126620, 126624), (126628, 126628), (126634, 126634), (126652, 126703),
      (126706, 126975), (127020, 127023), (127124, 127135), (127151, 127152),
      (127168, 127168), (127184, 127184), (127222, 127231), (127406, 127461),
      (127491, 127503), (127548, 127551), (127561, 127567), (127570, 127583),
      (127590, 127743), (128728, 128732), (128749, 128751), (128765, 128767),
      (128884, 128895), (128985, 128991), (129004, 129007), (129009, 129023),
      (129036, 129039), (129096, 129103), (129114, 129119), (129160, 129167),
      (129198, 129199), (129202, 129279), (129620, 129631), (129646, 129647),
      (129653, 129655), (129661, 129663), (129671, 129679), (129709, 129711),
      (129723, 129727), (129734, 129743), (129754, 129759), (129768, 129775),
      (129783, 129791), (129939, 129939), (129995, 130031), (130042, 131071),
      (173792, 173823), (177977, 177983), (178206, 178207), (183970, 183983),
      (191457, 194559), (195102, 196607), (201547, 917759), (918000, 1114111)]"

definition is_printable :: "nat \<Rightarrow> bool" where
  "is_printable c =
     (if c < 128 then 32 \<le> c \<and> c < 127
      else \<not> list_ex (\<lambda>r. fst r \<le> c \<and> c \<le> snd r) nonprintable_ranges)"

fun hex_digits :: "nat \<Rightarrow> nat \<Rightarrow> ustr" where
  "hex_digits 0 c = []"
| "hex_digits (Suc n) c = hex_digits n (c div 16) @ [hex_digit (c mod 16)]"

definition repr_char :: "nat \<Rightarrow> nat \<Rightarrow> ustr" where
  "repr_char q c =
     (if c = q \<or> c = 92 then [92, c]
      else if c = 9 then [92, 116]
      else if c = 10 then [92, 110]
      else if c = 13 then [92, 114]
      else if c < 32 \<or> c = 127 then [92, 120] @ hex_digits 2 c
      else if c < 127 then [c]
      else if is_printable c then [c]
      else if c \<le> 255 then [92, 120] @ hex_digits 2 c
      else if c \<le> 65535 then [92, 117] @ hex_digits 4 c
      else [92, 85] @ hex_digits 8 c)"

definition repr_str :: "ustr \<Rightarrow> ustr" where
  "repr_str s = (let q = repr_quote s in q # concat (map (repr_char q) s) @ [q])"

fun join_comma :: "ustr list \<Rightarrow> ustr" where
  "join_comma [] = []"
| "join_comma [x] = x"
| "join_comma (x # y # ys) = x @ [44, 32] @ join_comma (y # ys)"

fun py_repr :: "jv \<Rightarrow> ustr" where
  "py_repr JNull = u ''None''"
| "py_repr (JBool b) = (if b then u ''True'' else u ''False'')"
| "py_repr (JInt i) = str_int i"
| "py_repr (JStr s) = repr_str s"
| "py_repr (JList xs) = [91] @ join_comma (map py_repr xs) @ [93]"
| "py_repr (JDict kvs) =
     [123] @ join_comma (map (\<lambda>kv. repr_str (fst kv) @ [58, 32] @ py_repr (snd kv)) kvs) @ [125]"

definition py_str :: "jv \<Rightarrow> ustr" where
  "py_str v = (case v of JStr s \<Rightarrow> s | _ \<Rightarrow> py_repr v)"

text \<open>
  A dictionary is an association list with one entry per key. \<^verbatim>\<open>d.get(k)\<close> is \<open>get_none\<close>
  (\<^verbatim>\<open>None\<close> for a missing key), \<^verbatim>\<open>d.get(k, default)\<close> is \<open>get_default\<close>, and \<^verbatim>\<open>d[k] = v\<close> is
  \<open>dict_set\<close>: a key that is present keeps its place, a new key goes to the end.
\<close>

definition get_none :: "(ustr \<times> jv) list \<Rightarrow> ustr \<Rightarrow> jv" where
  "get_none d k = (case map_of d k of None \<Rightarrow> JNull | Some v \<Rightarrow> v)"

definition get_default :: "(ustr \<times> jv) list \<Rightarrow> ustr \<Rightarrow> jv \<Rightarrow> jv" where
  "get_default d k dflt = (case map_of d k of None \<Rightarrow> dflt | Some v \<Rightarrow> v)"

definition dict_set :: "('k \<times> 'v) list \<Rightarrow> 'k \<Rightarrow> 'v \<Rightarrow> ('k \<times> 'v) list" where
  "dict_set d k v =
     (if map_of d k = None then d @ [(k, v)]
      else map (\<lambda>kv. if fst kv = k then (k, v) else kv) d)"

section \<open>The table synchronisation (sync.py, cmd\_sync)\<close>

text \<open>
  The field names and the two marker strings of the source, as code points: the
  video id column, the like count, the play count, the title/description column, the
  title written for a video that is gone (five Chinese characters, "video has been
  taken down") and the warning sign U+26A0 U+FE0F.
\<close>

definition key_video_id :: ustr where
  "key_video_id = [35270, 39057, 73, 68]"

definition key_likes :: ustr where
  "key_likes = [28857, 36190, 25968]"

definition key_plays :: ustr where
  "key_plays = [25773, 25918, 37327]"

definition key_desc :: ustr where
  "key_desc = [26631, 39064, 25551, 36848]"

definition removed_title :: ustr where
  "removed_title = [35270, 39057, 24050, 19979, 26550]"

definition warning_sign :: ustr where
  "warning_sign = [9888, 65039]"

text \<open>
  A row of the table as \<^verbatim>\<open>list_records\<close> returns it: the backend's record id and the
  field mapping \<open>row_fields\<close> (\<^verbatim>\<open>record.get("fields", {})\<close>, so a row without fields has
  the empty mapping).
\<close>

record row =
  record_id :: ustr
  row_fields :: "(ustr \<times> jv) list"

text \<open>\<^verbatim>\<open>extract_video_id\<close> of sync.py.\<close>

definition extract_video_id :: "jv \<Rightarrow> ustr" where
  "extract_video_id raw_value =
     (if \<not> truthy raw_value then []
      else case raw_value of
             JList (first_item # rest) \<Rightarrow>
               (case first_item of
                  JDict d \<Rightarrow> strip (py_str (get_default d (u ''text'') (JStr [])))
                | _ \<Rightarrow> strip (py_str first_item))
           | _ \<Rightarrow> strip (py_str raw_value))"

definition row_video_id :: "row \<Rightarrow> ustr" where
  "row_video_id r = extract_video_id (get_none (row_fields r) key_video_id)"

text \<open>
  The grouping loop. \<^verbatim>\<open>video_groups\<close> is a dictionary from the video id to the group's
  master row and its duplicates.
\<close>

record group =
  master :: row
  duplicates :: "row list"

definition add_record :: "(ustr \<times> group) list \<Rightarrow> row \<Rightarrow> (ustr \<times> group) list" where
  "add_record video_groups r =
     (let video_id = row_video_id r
      in if video_id = [] then video_groups
         else if map_of video_groups video_id = None
         then video_groups @ [(video_id, \<lparr>master = r, duplicates = []\<rparr>)]
         else map (\<lambda>kg. if fst kg = video_id
                          then (fst kg, (snd kg)\<lparr>duplicates := duplicates (snd kg) @ [r]\<rparr>)
                          else kg) video_groups)"

definition group_records :: "row list \<Rightarrow> (ustr \<times> group) list" where
  "group_records records = foldl add_record [] records"

text \<open>The rows of a group: the master first, then the duplicates.\<close>

definition group_rows :: "group \<Rightarrow> row list" where
  "group_rows g = master g # duplicates g"

text \<open>
  The classification of a group, from its master's fields. \<open>desc_value\<close> is the title
  after the list and rich-text shapes are taken apart; it is the \<^verbatim>\<open>text\<close> member itself
  when the first list item is a dictionary, so it need not be a string.
  \<^verbatim>\<open>desc_value.startswith\<close> on anything but a string raises AttributeError, which ends
  the whole run.
\<close>

datatype py_error = AttributeError | KeyError | TypeError | RequestFailed

definition desc_value :: "(ustr \<times> jv) list \<Rightarrow> jv" where
  "desc_value flds =
     (let desc_raw = get_default flds key_desc (JStr [])
      in case desc_raw of
           JList [] \<Rightarrow> JStr []
         | JList (JDict d # rest) \<Rightarrow> get_default d (u ''text'') (JStr [])
         | JList (x # rest) \<Rightarrow> JStr (py_str x)
         | _ \<Rightarrow> if truthy desc_raw then JStr (py_str desc_raw) else JStr [])"

definition is_error :: "jv \<Rightarrow> py_error + bool" where
  "is_error dv =
     (case dv of
        JStr s \<Rightarrow> Inr (s = removed_title \<or> s = [] \<or> prefix warning_sign s)
      | _ \<Rightarrow> Inl AttributeError)"

definition has_likes :: "(ustr \<times> jv) list \<Rightarrow> bool" where
  "has_likes flds = truthy (get_none flds key_likes)"

definition has_plays :: "(ustr \<times> jv) list \<Rightarrow> bool" where
  "has_plays flds = truthy (get_none flds key_plays)"

definition is_complete :: "(ustr \<times> jv) list \<Rightarrow> py_error + bool" where
  "is_complete flds =
     (case is_error (desc_value flds) of
        Inl e \<Rightarrow> Inl e
      | Inr err \<Rightarrow>
          Inr ((truthy (desc_value flds) \<and> \<not> err) \<and> (has_likes flds \<or> has_plays flds)))"

text \<open>The loop that fills \<^verbatim>\<open>videos_to_fetch\<close>, in the order of the groups.\<close>

fun videos_to_fetch :: "bool \<Rightarrow> (ustr \<times> group) list \<Rightarrow> py_error + ustr list" where
  "videos_to_fetch force [] = Inr []"
| "videos_to_fetch force ((vid, g) # gs) =
     (case is_complete (row_fields (master g)) of
        Inl e \<Rightarrow> Inl e
      | Inr complete \<Rightarrow>
          (case videos_to_fetch force gs of
             Inl e \<Rightarrow> Inl e
           | Inr rest \<Rightarrow> Inr (if force \<or> \<not> complete then vid # rest else rest)))"

text \<open>
  The parsing and update loops. \<^verbatim>\<open>parse_video\<close> rounds floating-point numbers and reads
  the clock, so it is the parameter \<open>parse\<close>: the field mapping it returns, or \<open>None\<close>
  (it catches its own exceptions). \<open>batch_results\<close> is what \<^verbatim>\<open>fetch_videos_batch\<close>
  returned: a record or \<^verbatim>\<open>None\<close> per identifier.
\<close>

fun parse_results ::
  "(jv \<Rightarrow> (ustr \<times> jv) list option) \<Rightarrow> (ustr \<times> jv option) list \<Rightarrow>
     (ustr \<times> (ustr \<times> jv) list option) list" where
  "parse_results parse [] = []"
| "parse_results parse ((video_id, raw_data) # rest) =
     (case raw_data of
        Some v \<Rightarrow>
          (if truthy v then (video_id, parse v) # parse_results parse rest
           else parse_results parse rest)
      | None \<Rightarrow> parse_results parse rest)"

record update =
  upd_record_id :: ustr
  upd_fields :: "(ustr \<times> jv) list"

definition update_for ::
  "(ustr \<times> (ustr \<times> jv) list option) list \<Rightarrow> ustr \<Rightarrow> group \<Rightarrow> update" where
  "update_for parsed_results video_id g =
     (case map_of parsed_results video_id of
        Some (Some parsed_data) \<Rightarrow>
          (if parsed_data \<noteq> []
           then \<lparr>upd_record_id = record_id (master g), upd_fields = parsed_data\<rparr>
           else \<lparr>upd_record_id = record_id (master g),
                 upd_fields = [(key_desc, JStr removed_title)]\<rparr>)
      | _ \<Rightarrow> \<lparr>upd_record_id = record_id (master g),
               upd_fields = [(key_desc, JStr removed_title)]\<rparr>)"

fun build_updates ::
  "(ustr \<times> (ustr \<times> jv) list option) list \<Rightarrow> ustr list \<Rightarrow> (ustr \<times> group) list \<Rightarrow>
     update list" where
  "build_updates parsed_results to_fetch [] = []"
| "build_updates parsed_results to_fetch ((video_id, g) # gs) =
     (if video_id \<in> set to_fetch
      then update_for parsed_results video_id g # build_updates parsed_results to_fetch gs
      else build_updates parsed_results to_fetch gs)"

definition apply_results ::
  "(jv \<Rightarrow> (ustr \<times> jv) list option) \<Rightarrow> (ustr \<times> group) list \<Rightarrow> ustr list \<Rightarrow>
     (ustr \<times> jv option) list \<Rightarrow> update list" where
  "apply_results parse video_groups to_fetch batch_results =
     build_updates (parse_results parse batch_results) to_fetch video_groups"

text \<open>
  The invariant of the grouping loop after the rows \<open>rs\<close>: the keys are distinct and not
  empty, a group holds exactly the rows read so far that carry its key, in the order
  read, and every row read so far whose identifier is not empty has its key in the
  dictionary.
\<close>

definition groups_inv :: "row list \<Rightarrow> (ustr \<times> group) list \<Rightarrow> bool" where
  "groups_inv rs gs =
     (distinct (map fst gs) \<and>
      list_all (\<lambda>kg. fst kg \<noteq> [] \<and>
                 group_rows (snd kg) = filter (\<lambda>r. row_video_id r = fst kg) rs) gs \<and>
      list_all (\<lambda>r. row_video_id r = [] \<or> row_video_id r \<in> fst ` set gs) rs)"

text \<open>Four rows to run the planner on, and the groups they make.\<close>

definition sample_id_a :: ustr where "sample_id_a = u ''7567352731951164082''"
definition sample_id_b :: ustr where "sample_id_b = u ''7567352731951164083''"

definition sample_row1 :: row where
  "sample_row1 =
     \<lparr>record_id = u ''rec1'',
      row_fields = [(key_video_id, JList [JDict [(u ''text'', JStr (u '' 7567352731951164082 ''))]]),
                    (key_desc, JStr (u ''a title'')), (key_likes, JInt 120)]\<rparr>"

definition sample_row2 :: row where
  "sample_row2 =
     \<lparr>record_id = u ''rec2'',
      row_fields = [(key_video_id, JStr (u ''7567352731951164082'')), (key_desc, JStr [])]\<rparr>"

definition sample_row3 :: row where
  "sample_row3 = \<lparr>record_id = u ''rec3'', row_fields = [(key_desc, JStr (u ''no id''))]\<rparr>"

definition sample_row4 :: row where
  "sample_row4 =
     \<lparr>record_id = u ''rec4'',
      row_fields = [(key_video_id, JStr (u ''7567352731951164083'')),
                    (key_desc, JStr removed_title), (key_likes, JInt 5)]\<rparr>"

definition sample_rows :: "row list" where
  "sample_rows = [sample_row1, sample_row2, sample_row3, sample_row4]"

definition sample_groups :: "(ustr \<times> group) list" where
  "sample_groups =
     [(sample_id_a, \<lparr>master = sample_row1, duplicates = [sample_row2]\<rparr>),
      (sample_id_b, \<lparr>master = sample_row4, duplicates = []\<rparr>)]"



text \<open>
  Two rows for one video: the id column of the first holds the identifier, that of the
  second the address of the video page.
\<close>

definition bare_id_row :: row where
  "bare_id_row =
     \<lparr>record_id = u ''recA'',
      row_fields = [(key_video_id, JStr (u ''7567352731951164082''))]\<rparr>"

definition url_id_row :: row where
  "url_id_row =
     \<lparr>record_id = u ''recB'',
      row_fields =
        [(key_video_id, JStr (u ''https://www.douyin.com/video/7567352731951164082''))]\<rparr>"

text \<open>
  \<open>title_is_text g\<close>: the title of the master of \<open>g\<close>, taken apart, is a string (it is not
  when the first item of a rich-text list carries a \<^verbatim>\<open>text\<close> that is not a string).
\<close>

definition title_is_text :: "group \<Rightarrow> bool" where
  "title_is_text g =
     (case desc_value (row_fields (master g)) of JStr s \<Rightarrow> True | _ \<Rightarrow> False)"

text \<open>A stand-in for \<^verbatim>\<open>parse_video\<close> and one result of a batch fetch, to run the loops on.\<close>

definition sample_parse :: "jv \<Rightarrow> (ustr \<times> jv) list option" where
  "sample_parse raw =
     (case raw of
        JDict d \<Rightarrow> Some [(key_desc, get_default d (u ''desc'') (JStr []))]
      | _ \<Rightarrow> None)"

definition sample_batch_results :: "(ustr \<times> jv option) list" where
  "sample_batch_results =
     [(sample_id_a, Some (JDict [(u ''desc'', JStr (u ''fresh title''))])), (sample_id_b, None)]"

section \<open>The brand registry (yuntu\_scraper.py)\<close>

text \<open>
  The registry lives in a JSON file that only \<^verbatim>\<open>save_brands_config\<close> writes, so the file
  is either missing or holds a dictionary from brand keys to entries. When the file is
  missing, \<^verbatim>\<open>load_brands_config\<close> returns the module's \<^verbatim>\<open>DEFAULT_BRANDS\<close> object itself, which
  \<^verbatim>\<open>add_brand\<close> then changes in place before it saves: the store holds both the file and
  that object. The two names in the default entry are written as code points.
\<close>

definition yuntu_url_prefix :: ustr where
  "yuntu_url_prefix =
     u ''https://yuntu.oceanengine.com/yuntu_brand/ecom/strategy/medium/talent_markting/hotcontent?aadvid=''"

definition brand_entry :: "ustr \<Rightarrow> ustr \<Rightarrow> ustr \<Rightarrow> jv" where
  "brand_entry name aadvid industry =
     JDict [(u ''name'', JStr name), (u ''aadvid'', JStr aadvid), (u ''industry'', JStr industry),
            (u ''yuntu_url'', JStr (yuntu_url_prefix @ aadvid))]"

definition DEFAULT_BRANDS :: "(ustr \<times> jv) list" where
  "DEFAULT_BRANDS =
     [(u ''lego'',
       brand_entry [20048, 39640, 47, 76, 69, 71, 79] (u ''1731407744628743'')
         [27597, 23156, 47, 27597, 23156])]"

record brand_store =
  config_file :: "(ustr \<times> jv) list option"
  default_brands :: "(ustr \<times> jv) list"

definition initial_store :: brand_store where
  "initial_store = \<lparr>config_file = None, default_brands = DEFAULT_BRANDS\<rparr>"

definition load_brands_config :: "brand_store \<Rightarrow> (ustr \<times> jv) list" where
  "load_brands_config st =
     (case config_file st of Some brands \<Rightarrow> brands | None \<Rightarrow> default_brands st)"

definition add_brand :: "brand_store \<Rightarrow> ustr \<Rightarrow> ustr \<Rightarrow> ustr \<Rightarrow> ustr \<Rightarrow> brand_store" where
  "add_brand st brand_key name aadvid industry =
     (let brands = dict_set (load_brands_config st) brand_key (brand_entry name aadvid industry)
      in \<lparr>config_file = Some brands,
          default_brands = (if config_file st = None then brands else default_brands st)\<rparr>)"

text \<open>
  \<^verbatim>\<open>brands[brand_key]["yuntu_url"]\<close> raises KeyError when the entry has no such member and
  TypeError when the entry is not a dictionary.
\<close>

definition get_brand_url :: "brand_store \<Rightarrow> ustr \<Rightarrow> py_error + jv option" where
  "get_brand_url st brand_key =
     (case map_of (load_brands_config st) brand_key of
        None \<Rightarrow> Inr None
      | Some (JDict entry) \<Rightarrow>
          (case map_of entry (u ''yuntu_url'') of
             None \<Rightarrow> Inl KeyError
           | Some url \<Rightarrow> Inr (Some url))
      | Some other \<Rightarrow> Inl TypeError)"

section \<open>The batch fetch (douyin\_api.py, fetch\_videos\_batch)\<close>

text \<open>
  The HTTP layer. A request either raises or returns a response; a response has a
  status code and a body that \<^verbatim>\<open>response.json()\<close> parses or raises on.
\<close>

datatype exn = Timeout | RequestException | OtherException

record response =
  status_code :: int
  json_body :: "exn + jv"

text \<open>\<^verbatim>\<open>obj.get(k, dflt)\<close>: AttributeError when \<open>obj\<close> is not a dictionary.\<close>

definition py_get :: "jv \<Rightarrow> ustr \<Rightarrow> jv \<Rightarrow> py_error + jv" where
  "py_get obj k dflt =
     (case obj of JDict d \<Rightarrow> Inr (get_default d k dflt) | _ \<Rightarrow> Inl AttributeError)"

definition bind_err :: "py_error + 'a \<Rightarrow> ('a \<Rightarrow> py_error + 'b) \<Rightarrow> py_error + 'b" where
  "bind_err x f = (case x of Inl e \<Rightarrow> Inl e | Inr v \<Rightarrow> f v)"

text \<open>\<^verbatim>\<open>(v or {})\<close>.\<close>

definition or_empty_dict :: "jv \<Rightarrow> jv" where
  "or_empty_dict v = (if truthy v then v else JDict [])"

definition video_url_prefix :: ustr where
  "video_url_prefix = u ''https://www.douyin.com/video/''"

text \<open>
  What the batch keeps of the HTTP layer and of the library: the POST of one chunk to
  the Web API and the GET of one pair to the App API (\<open>None\<close> when the request raises;
  the number is the loop index), \<^verbatim>\<open>json.loads\<close> (\<open>None\<close> when it raises),
  \<^verbatim>\<open>self.fetch_video\<close> on a fallback URL (it returns a record or \<^verbatim>\<open>None\<close> and catches its
  own exceptions), and \<^verbatim>\<open>int\<close> on a string (\<open>None\<close> when it raises).
\<close>

record batch_env =
  post_web :: "nat \<Rightarrow> ustr list \<Rightarrow> response option"
  loads :: "ustr \<Rightarrow> jv option"
  fetch_single :: "ustr \<Rightarrow> jv option"
  get_stats :: "nat \<Rightarrow> ustr list \<Rightarrow> response option"
  int_of_str :: "ustr \<Rightarrow> int option"

type_synonym results = "(ustr \<times> jv option) list"

text \<open>\<^verbatim>\<open>k in d\<close> on a dictionary.\<close>

definition has_key :: "('k \<times> 'v) list \<Rightarrow> 'k \<Rightarrow> bool" where
  "has_key d k = (map_of d k \<noteq> None)"

text \<open>
  The body of the loop over \<^verbatim>\<open>aweme_list\<close>: the identifier and the converted record of
  one item, \<open>None\<close> for an item that is skipped (its identifier is the empty string),
  or the exception of a \<^verbatim>\<open>.get\<close> on something that is not a dictionary.
\<close>

definition convert_detail :: "jv \<Rightarrow> py_error + (ustr \<times> jv) option" where
  "convert_detail aweme_detail =
     (case aweme_detail of
        JDict d \<Rightarrow>
          (let aweme_id = py_str (get_none d (u ''aweme_id''));
               author = or_empty_dict (get_none d (u ''author''));
               statistics = get_default d (u ''statistics'') (JDict [])
           in if aweme_id = [] then Inr None
              else
                bind_err (py_get (get_default d (u ''video'') (JDict [])) (u ''duration'') (JInt 0))
                  (\<lambda>duration.
                bind_err (py_get author (u ''nickname'') JNull) (\<lambda>nickname.
                bind_err (py_get author (u ''unique_id'') JNull) (\<lambda>unique_id.
                bind_err (py_get statistics (u ''digg_count'') (JInt 0)) (\<lambda>digg_count.
                bind_err (py_get statistics (u ''comment_count'') (JInt 0)) (\<lambda>comment_count.
                bind_err (py_get statistics (u ''share_count'') (JInt 0)) (\<lambda>share_count.
                bind_err (py_get statistics (u ''collect_count'') (JInt 0)) (\<lambda>collect_count.
                bind_err (py_get statistics (u ''play_count'') (JInt 0)) (\<lambda>play_count.
                  Inr (Some (aweme_id,
                    JDict [(u ''code'', JInt 0),
                           (u ''data'', JDict
                              [(u ''aweme_id'', get_none d (u ''aweme_id'')),
                               (u ''share_url'', JStr (video_url_prefix @ aweme_id)),
                               (u ''desc'', get_none d (u ''desc'')),
                               (u ''create_time'', get_none d (u ''create_time'')),
                               (u ''duration'', duration),
                               (u ''author'', JDict [(u ''nickname'', nickname),
                                                      (u ''unique_id'', unique_id)]),
                               (u ''_data_source'', JStr (u ''Web API'')),
                               (u ''statistics'', JDict
                                  [(u ''digg_count'', digg_count),
                                   (u ''comment_count'', comment_count),
                                   (u ''share_count'', share_count),
                                   (u ''collect_count'', collect_count),
                                   (u ''play_count'', play_count)]),
                               (u ''text_extra'', get_default d (u ''text_extra'') (JList [])),
                               (u ''promotions'', JList [])])])))))))))))
      | _ \<Rightarrow> Inl AttributeError)"

text \<open>
  The loop over \<^verbatim>\<open>aweme_list\<close> runs inside a \<^verbatim>\<open>try\<close>: an exception ends it and keeps what
  was stored before.
\<close>

fun insert_details :: "results \<Rightarrow> jv list \<Rightarrow> results" where
  "insert_details res [] = res"
| "insert_details res (aweme_detail # rest) =
     (case convert_detail aweme_detail of
        Inl e \<Rightarrow> res
      | Inr None \<Rightarrow> insert_details res rest
      | Inr (Some (aweme_id, converted_data)) \<Rightarrow>
          insert_details (dict_set res aweme_id (Some converted_data)) rest)"

text \<open>
  \<^verbatim>\<open>aweme_list\<close> from the \<^verbatim>\<open>data\<close> member of the answer. A truthy \<^verbatim>\<open>aweme_list\<close> that is not
  a list stores nothing: iterating a dictionary or a string yields strings, on which
  \<^verbatim>\<open>.get\<close> raises at the first item, and a number cannot be iterated.
\<close>

definition aweme_list_of :: "(ustr \<Rightarrow> jv option) \<Rightarrow> jv \<Rightarrow> py_error + jv" where
  "aweme_list_of json_loads data_field0 =
     (let data_field =
            (case data_field0 of
               JStr s \<Rightarrow> (case json_loads s of Some v \<Rightarrow> v | None \<Rightarrow> JNull)
             | v \<Rightarrow> v)
      in if \<not> truthy data_field then Inr (JList [])
         else case data_field of
                JList xs \<Rightarrow> Inr data_field
              | _ \<Rightarrow>
                  bind_err (py_get data_field (u ''aweme_list'') JNull) (\<lambda>a.
                    if truthy a then Inr a
                    else bind_err (py_get data_field (u ''aweme_details'') JNull) (\<lambda>b.
                           Inr (if truthy b then b else JList []))))"

definition insert_aweme_list :: "results \<Rightarrow> jv \<Rightarrow> results" where
  "insert_aweme_list res aweme_list =
     (case aweme_list of JList xs \<Rightarrow> insert_details res xs | _ \<Rightarrow> res)"

definition web_results :: "(ustr \<Rightarrow> jv option) \<Rightarrow> results \<Rightarrow> response \<Rightarrow> results" where
  "web_results json_loads res resp =
     (if status_code resp = 200
      then (case json_body resp of
              Inl e \<Rightarrow> res
            | Inr data \<Rightarrow>
                (case bind_err (py_get data (u ''code'') JNull) (\<lambda>code.
                        if code = JInt 200
                        then bind_err (py_get data (u ''data'') JNull) (aweme_list_of json_loads)
                        else Inr (JList [])) of
                   Inl e \<Rightarrow> res
                 | Inr aweme_list \<Rightarrow> insert_aweme_list res aweme_list))
      else res)"

text \<open>
  The loop that marks the identifiers the Web API did not return and tries each of
  them alone. \<^verbatim>\<open>single_data.get('code') == 0\<close> also holds for \<^verbatim>\<open>False\<close>; on a truthy
  \<open>single_data\<close> that is not a dictionary \<^verbatim>\<open>.get\<close> raises, and that exception reaches the
  outer handler.
\<close>

fun mark_missing :: "batch_env \<Rightarrow> results \<Rightarrow> ustr list \<Rightarrow> py_error + results" where
  "mark_missing env res [] = Inr res"
| "mark_missing env res (aweme_id # ids) =
     (if has_key res aweme_id then mark_missing env res ids
      else
        (let res1 = dict_set res aweme_id None
         in case fetch_single env (video_url_prefix @ aweme_id) of
              None \<Rightarrow> mark_missing env res1 ids
            | Some single_data \<Rightarrow>
                if \<not> truthy single_data then mark_missing env res1 ids
                else (case py_get single_data (u ''code'') JNull of
                        Inl e \<Rightarrow> Inl e
                      | Inr code \<Rightarrow>
                          if code = JInt 0 \<or> code = JBool False
                          then mark_missing env (dict_set res1 aweme_id (Some single_data)) ids
                          else mark_missing env res1 ids)))"

text \<open>\<^verbatim>\<open>range(0, len(xs), n)\<close> with the slices \<^verbatim>\<open>xs[i:i+n]\<close>.\<close>

fun chunks_of :: "nat \<Rightarrow> 'a list \<Rightarrow> 'a list list" where
  "chunks_of n xs = (if xs = [] \<or> n = 0 then [] else take n xs # chunks_of n (drop n xs))"

declare chunks_of.simps [simp del]

fun process_chunks ::
  "batch_env \<Rightarrow> nat \<Rightarrow> results \<Rightarrow> ustr list list \<Rightarrow> py_error + results" where
  "process_chunks env i res [] = Inr res"
| "process_chunks env i res (batch_ids # rest) =
     (case post_web env i batch_ids of
        None \<Rightarrow> Inl RequestFailed
      | Some resp \<Rightarrow>
          (case mark_missing env (web_results (loads env) res resp) batch_ids of
             Inl e \<Rightarrow> Inl e
           | Inr res' \<Rightarrow> process_chunks env (i + 50) res' rest))"

text \<open>\<^verbatim>\<open>int(v)\<close>, \<open>None\<close> when it raises.\<close>

definition py_int :: "(ustr \<Rightarrow> int option) \<Rightarrow> jv \<Rightarrow> int option" where
  "py_int of_str v =
     (case v of
        JInt i \<Rightarrow> Some i
      | JBool b \<Rightarrow> Some (if b then 1 else 0)
      | JStr s \<Rightarrow> of_str s
      | _ \<Rightarrow> None)"

text \<open>
  The two assignments \<^verbatim>\<open>results[vid]['data']['statistics']['play_count'] = play_count\<close> and
  \<^verbatim>\<open>results[vid]['data']['_data_source'] = "App API"\<close> on one record.
\<close>

definition set_play_count :: "jv \<Rightarrow> int \<Rightarrow> py_error + jv" where
  "set_play_count record play_count =
     (case record of
        JDict r \<Rightarrow>
          (case map_of r (u ''data'') of
             None \<Rightarrow> Inl KeyError
           | Some (JDict data) \<Rightarrow>
               (case map_of data (u ''statistics'') of
                  None \<Rightarrow> Inl KeyError
                | Some (JDict statistics) \<Rightarrow>
                    Inr (JDict (dict_set r (u ''data'')
                      (JDict (dict_set
                         (dict_set data (u ''statistics'')
                            (JDict (dict_set statistics (u ''play_count'') (JInt play_count))))
                         (u ''_data_source'') (JStr (u ''App API''))))))
                | Some other \<Rightarrow> Inl TypeError)
           | Some other \<Rightarrow> Inl TypeError)
      | _ \<Rightarrow> Inl TypeError)"

definition apply_stat :: "batch_env \<Rightarrow> results \<Rightarrow> jv \<Rightarrow> py_error + results" where
  "apply_stat env res stat =
     bind_err (py_get stat (u ''aweme_id'') JNull) (\<lambda>vid_value.
     bind_err (py_get stat (u ''play_count'') (JInt 0)) (\<lambda>play_value.
       (let vid = py_str vid_value;
            play_count = (case py_int (int_of_str env) play_value of Some n \<Rightarrow> n | None \<Rightarrow> 0)
        in case map_of res vid of
             Some (Some record) \<Rightarrow>
               if truthy record
               then bind_err (set_play_count record play_count)
                      (\<lambda>record'. Inr (dict_set res vid (Some record')))
               else Inr res
           | _ \<Rightarrow> Inr res)))"

fun apply_stats_list :: "batch_env \<Rightarrow> results \<Rightarrow> jv list \<Rightarrow> results" where
  "apply_stats_list env res [] = res"
| "apply_stats_list env res (stat # rest) =
     (case apply_stat env res stat of
        Inl e \<Rightarrow> res
      | Inr res' \<Rightarrow> apply_stats_list env res' rest)"

definition supplement_batch :: "batch_env \<Rightarrow> nat \<Rightarrow> results \<Rightarrow> ustr list \<Rightarrow> results" where
  "supplement_batch env i res batch_ids =
     (case get_stats env i batch_ids of
        None \<Rightarrow> res
      | Some resp \<Rightarrow>
          if status_code resp = 200
          then (case json_body resp of
                  Inl e \<Rightarrow> res
                | Inr stats_data \<Rightarrow>
                    (case bind_err (py_get stats_data (u ''code'') JNull) (\<lambda>code.
                            if code = JInt 200
                            then bind_err (py_get stats_data (u ''data'') (JDict [])) (\<lambda>d.
                                   py_get d (u ''statistics_list'') (JList []))
                            else Inr (JList [])) of
                       Inr (JList stats_list) \<Rightarrow> apply_stats_list env res stats_list
                     | _ \<Rightarrow> res))
          else res)"

fun supplement_all :: "batch_env \<Rightarrow> nat \<Rightarrow> results \<Rightarrow> ustr list list \<Rightarrow> results" where
  "supplement_all env i res [] = res"
| "supplement_all env i res (batch_ids # rest) =
     supplement_all env (i + 2) (supplement_batch env i res batch_ids) rest"

definition successful_ids :: "results \<Rightarrow> ustr list" where
  "successful_ids res = map fst (filter (\<lambda>kv. snd kv \<noteq> None) res)"

definition batch_body :: "batch_env \<Rightarrow> ustr list \<Rightarrow> py_error + results" where
  "batch_body env aweme_ids =
     (case process_chunks env 0 [] (chunks_of 50 aweme_ids) of
        Inl e \<Rightarrow> Inl e
      | Inr res \<Rightarrow> Inr (supplement_all env 0 res (chunks_of 2 (successful_ids res))))"

text \<open>\<^verbatim>\<open>{aweme_id: None for aweme_id in aweme_ids}\<close>.\<close>

definition all_none :: "ustr list \<Rightarrow> results" where
  "all_none aweme_ids = foldl (\<lambda>d aweme_id. dict_set d aweme_id None) [] aweme_ids"

definition fetch_videos_batch :: "batch_env \<Rightarrow> ustr list \<Rightarrow> results" where
  "fetch_videos_batch env aweme_ids =
     (if aweme_ids = [] then []
      else case batch_body env aweme_ids of
             Inr res \<Rightarrow> res
           | Inl e \<Rightarrow> all_none aweme_ids)"

section \<open>The statistics merge (douyin\_api.py, \_supplement\_statistics)\<close>

text \<open>
  The merge inside \<^verbatim>\<open>_supplement_statistics\<close> (the single-video path): for each of the
  five counters the larger of the App API value and the Web API value is stored,
  unless it is not positive. The counters are integers; a counter that is missing
  reads as 0.
\<close>

definition stat_keys :: "ustr list" where
  "stat_keys =
     [u ''play_count'', u ''digg_count'', u ''comment_count'', u ''share_count'',
      u ''collect_count'']"

definition get_int :: "(ustr \<times> int) list \<Rightarrow> ustr \<Rightarrow> int" where
  "get_int d k = (case map_of d k of None \<Rightarrow> 0 | Some v \<Rightarrow> v)"

definition merge_statistic ::
  "(ustr \<times> int) list \<Rightarrow> (ustr \<times> int) list \<Rightarrow> ustr \<Rightarrow> (ustr \<times> int) list" where
  "merge_statistic app_stats statistics key =
     (let app_val = get_int app_stats key;
          web_val = get_int statistics key;
          final_val = max app_val web_val
      in if final_val > 0 then dict_set statistics key final_val else statistics)"

definition supplement_statistics ::
  "(ustr \<times> int) list \<Rightarrow> (ustr \<times> int) list \<Rightarrow> (ustr \<times> int) list" where
  "supplement_statistics app_stats statistics =
     foldl (merge_statistic app_stats) statistics stat_keys"

section \<open>The single fetch (douyin\_api.py, fetch\_video)\<close>

text \<open>
  What \<^verbatim>\<open>fetch_video\<close> keeps of its surroundings: the configured API URL, the HEAD request
  of the redirect resolution, the GET of the Web API and of the Mobile API at each
  attempt (the exception raised, or the response), and \<open>finish\<close>, which stands for the
  rest of the function once the loop has left with data (lines 177 to 236: the check
  of the answer's code, the statistics supplement and the conversion); \<open>finish\<close>
  returns the record or \<open>None\<close>, as the function's own handlers turn every exception
  of that part into \<^verbatim>\<open>None\<close>.
\<close>

record fetch_env =
  api_url :: "ustr option"
  head_request :: "ustr \<Rightarrow> ustr option"
  web_get :: "nat \<Rightarrow> ustr \<Rightarrow> exn + response"
  mobile_get :: "nat \<Rightarrow> ustr \<Rightarrow> exn + response"
  finish :: "ustr \<Rightarrow> ustr \<Rightarrow> jv \<Rightarrow> jv option"

text \<open>What the function does that can be observed from outside, in order.\<close>

datatype event = WebRequest nat | MobileRequest nat | Sleep nat

text \<open>
  How one pass of the retry loop ends: \<open>Break\<close> leaves the loop with data, \<open>Return\<close>
  leaves the function with a value, \<open>Propagate\<close> is an exception that the handlers of
  the loop do not catch (it reaches the handler of the function), and \<open>Continue\<close> goes
  on to the sleep and the next pass; it carries the response, if the request
  returned one.
\<close>

datatype pass_end = Break response jv | Return jv | Propagate | Continue "response option"

text \<open>The record returned for a video that the API reports as not found.\<close>

definition not_found_title :: ustr where
  "not_found_title = [35270, 39057, 19981, 23384, 22312, 25110, 24050, 19979, 26550]"

definition removed_record :: "ustr \<Rightarrow> jv" where
  "removed_record aweme_id =
     JDict [(u ''code'', JInt 0),
            (u ''data'', JDict
               [(u ''aweme_id'', JStr aweme_id), (u ''desc'', JStr not_found_title),
                (u ''create_time'', JInt 0),
                (u ''status'', JDict [(u ''is_delete'', JBool True)]),
                (u ''statistics'', JDict []), (u ''author'', JDict []),
                (u ''share_url'', JStr [])])]"

text \<open>
  The Mobile API fallback of a 404, inside its own \<^verbatim>\<open>try\<close>: the data to break with, if
  the Mobile API answers with code 200 and a truthy \<^verbatim>\<open>aweme_detail\<close>.
\<close>

definition mobile_fallback :: "fetch_env \<Rightarrow> nat \<Rightarrow> ustr \<Rightarrow> jv option" where
  "mobile_fallback env attempt aweme_id =
     (case mobile_get env attempt aweme_id of
        Inl e \<Rightarrow> None
      | Inr mobile_resp \<Rightarrow>
          if status_code mobile_resp = 200
          then (case json_body mobile_resp of
                  Inl e \<Rightarrow> None
                | Inr mobile_data \<Rightarrow>
                    (case bind_err (py_get mobile_data (u ''code'') JNull) (\<lambda>code.
                            if code = JInt 200
                            then bind_err (py_get mobile_data (u ''data'') (JDict [])) (\<lambda>d.
                                   py_get d (u ''aweme_detail'') JNull)
                            else Inr JNull) of
                       Inr detail \<Rightarrow> if truthy detail then Some mobile_data else None
                     | Inl e \<Rightarrow> None))
          else None)"

text \<open>
  Whether the body of the 404 answer says \<^verbatim>\<open>{"detail": "Not Found"}\<close>; any exception of
  that test is swallowed.
\<close>

definition says_not_found :: "response \<Rightarrow> bool" where
  "says_not_found resp =
     (case json_body resp of
        Inl e \<Rightarrow> False
      | Inr err_data \<Rightarrow>
          (case py_get err_data (u ''detail'') JNull of
             Inr detail \<Rightarrow> detail = JStr (u ''Not Found'')
           | Inl e \<Rightarrow> False))"

text \<open>One pass of the loop, with the requests it makes.\<close>

definition attempt_pass :: "fetch_env \<Rightarrow> nat \<Rightarrow> ustr \<Rightarrow> event list \<times> pass_end" where
  "attempt_pass env attempt aweme_id =
     (case web_get env attempt aweme_id of
        Inl OtherException \<Rightarrow> ([WebRequest attempt], Propagate)
      | Inl e \<Rightarrow> ([WebRequest attempt], Continue None)
      | Inr resp \<Rightarrow>
          if status_code resp = 200
          then (case json_body resp of
                  Inl OtherException \<Rightarrow> ([WebRequest attempt], Propagate)
                | Inl e \<Rightarrow> ([WebRequest attempt], Continue (Some resp))
                | Inr data \<Rightarrow>
                    if truthy data then ([WebRequest attempt], Break resp data)
                    else ([WebRequest attempt], Continue (Some resp)))
          else if status_code resp = 404
          then (case mobile_fallback env attempt aweme_id of
                  Some mobile_data \<Rightarrow>
                    ([WebRequest attempt, MobileRequest attempt], Break resp mobile_data)
                | None \<Rightarrow>
                    if says_not_found resp
                    then ([WebRequest attempt, MobileRequest attempt],
                          Return (removed_record aweme_id))
                    else ([WebRequest attempt, MobileRequest attempt], Continue (Some resp)))
          else ([WebRequest attempt], Continue (Some resp)))"

text \<open>
  The loop \<^verbatim>\<open>for attempt in range(3)\<close>, as a recursion on the passes that are left: the
  events, and how the loop ended (\<open>Continue\<close> when the three passes are used up).
  After a pass that goes on, the loop sleeps 2 seconds unless the pass was the last.
\<close>

fun request_loop :: "fetch_env \<Rightarrow> ustr \<Rightarrow> nat \<Rightarrow> nat \<Rightarrow> event list \<times> pass_end" where
  "request_loop env aweme_id attempt 0 = ([], Continue None)"
| "request_loop env aweme_id attempt (Suc left) =
     (case attempt_pass env attempt aweme_id of
        (evs, Continue r) \<Rightarrow>
          (let (evs', ending) = request_loop env aweme_id (Suc attempt) left
           in (evs @ (if attempt < 2 then [Sleep 2] else []) @ evs', ending))
      | (evs, ending) \<Rightarrow> (evs, ending))"

text \<open>
  \<^verbatim>\<open>fetch_video\<close>: the events of the retry loop and the value returned. When the loop
  uses up its passes, \<^verbatim>\<open>data\<close> is \<^verbatim>\<open>None\<close> or falsy, and the function returns \<^verbatim>\<open>None\<close>
  whether or not a response was ever received.
\<close>

definition fetch_video :: "fetch_env \<Rightarrow> ustr \<Rightarrow> event list \<times> jv option" where
  "fetch_video env url =
     (case api_url env of
        None \<Rightarrow> ([], None)
      | Some api \<Rightarrow>
          if api = [] then ([], None)
          else (case extract_aweme_id (head_request env) url of
                  None \<Rightarrow> ([], None)
                | Some aweme_id \<Rightarrow>
                    (case request_loop env aweme_id 0 3 of
                       (evs, Break resp data) \<Rightarrow> (evs, finish env aweme_id url data)
                     | (evs, Return v) \<Rightarrow> (evs, Some v)
                     | (evs, Propagate) \<Rightarrow> (evs, None)
                     | (evs, Continue r) \<Rightarrow> (evs, None))))"

definition is_web_request :: "event \<Rightarrow> bool" where
  "is_web_request ev = (case ev of WebRequest n \<Rightarrow> True | _ \<Rightarrow> False)"

definition is_sleep :: "event \<Rightarrow> bool" where
  "is_sleep ev = (case ev of Sleep n \<Rightarrow> True | _ \<Rightarrow> False)"

text \<open>A failure of the connection: a timeout or another \<^verbatim>\<open>RequestException\<close>.\<close>

definition connection_failure :: "exn + response \<Rightarrow> bool" where
  "connection_failure r = (r = Inl Timeout \<or> r = Inl RequestException)"

text \<open>An HTTP layer whose Web API times out at every attempt.\<close>

definition timeout_env :: fetch_env where
  "timeout_env =
     \<lparr>api_url = Some (u ''https://api.tikhub.io/api/v1/douyin/web/fetch_video_detail''),
      head_request = no_redirect,
      web_get = (\<lambda>attempt aweme_id. Inl Timeout),
      mobile_get = (\<lambda>attempt aweme_id. Inl Timeout),
      finish = (\<lambda>aweme_id url data. None)\<rparr>"

text \<open>
  An HTTP layer to run the batch on. The Web API returns two of three requested
  videos, with play counts 100 and 50; the single fetch of the third fails; the App
  API reports play counts 80 and 0 for the first two. A second layer has a Web API
  that cannot be reached.
\<close>

definition sample_id_c :: ustr where
  "sample_id_c = u ''7567352731951164084''"

definition sample_detail :: "ustr \<Rightarrow> int \<Rightarrow> jv" where
  "sample_detail aweme_id play =
     JDict [(u ''aweme_id'', JStr aweme_id), (u ''desc'', JStr (u ''clip'')),
            (u ''create_time'', JInt 1700000000),
            (u ''statistics'', JDict [(u ''digg_count'', JInt 7), (u ''play_count'', JInt play)])]"

definition sample_web_response :: response where
  "sample_web_response =
     \<lparr>status_code = 200,
      json_body = Inr (JDict [(u ''code'', JInt 200),
        (u ''data'', JDict [(u ''aweme_list'',
           JList [sample_detail sample_id_a 100, sample_detail sample_id_b 50])])])\<rparr>"

definition sample_stats_response :: response where
  "sample_stats_response =
     \<lparr>status_code = 200,
      json_body = Inr (JDict [(u ''code'', JInt 200),
        (u ''data'', JDict [(u ''statistics_list'',
           JList [JDict [(u ''aweme_id'', JStr sample_id_a), (u ''play_count'', JInt 80)],
                  JDict [(u ''aweme_id'', JStr sample_id_b), (u ''play_count'', JInt 0)]])])])\<rparr>"

definition sample_env :: batch_env where
  "sample_env =
     \<lparr>post_web = (\<lambda>i ids. Some sample_web_response),
      loads = (\<lambda>s. None),
      fetch_single = (\<lambda>url. None),
      get_stats = (\<lambda>i ids. Some sample_stats_response),
      int_of_str = (\<lambda>s. None)\<rparr>"

definition unreachable_env :: batch_env where
  "unreachable_env = sample_env\<lparr>post_web := (\<lambda>i ids. None)\<rparr>"

definition sample_record :: "ustr \<Rightarrow> int \<Rightarrow> ustr \<Rightarrow> jv" where
  "sample_record aweme_id play source =
     JDict [(u ''code'', JInt 0),
            (u ''data'', JDict
               [(u ''aweme_id'', JStr aweme_id),
                (u ''share_url'', JStr (video_url_prefix @ aweme_id)),
                (u ''desc'', JStr (u ''clip'')),
                (u ''create_time'', JInt 1700000000),
                (u ''duration'', JInt 0),
                (u ''author'', JDict [(u ''nickname'', JNull), (u ''unique_id'', JNull)]),
                (u ''_data_source'', JStr source),
                (u ''statistics'', JDict
                   [(u ''digg_count'', JInt 7), (u ''comment_count'', JInt 0),
                    (u ''share_count'', JInt 0), (u ''collect_count'', JInt 0),
                    (u ''play_count'', JInt play)]),
                (u ''text_extra'', JList []),
                (u ''promotions'', JList [])])]"

section \<open>Properties of the identifier extractor\<close>

lemma window19_0: "window19 s 0 = (digits19_at s \<noteq> None)"
  by (simp add: window19_def digits19_at_def)

lemma window19_Suc: "window19 (c # cs) (Suc i) = window19 cs i"
  by (simp add: window19_def add.commute)

lemma digits19_at_Some: "digits19_at s = Some m \<Longrightarrow> m = take 19 s"
  by (simp add: digits19_at_def split: if_splits)

lemma search_digits19_Some:
  "search_digits19 s = Some m \<Longrightarrow>
     \<exists>k. window19 s k \<and> (\<forall>j<k. \<not> window19 s j) \<and> m = take 19 (drop k s)"
proof (induction s)
  case Nil
  then show ?case by simp
next
  case (Cons c cs)
  show ?case
  proof (cases "digits19_at (c # cs)")
    case (Some m')
    with Cons.prems have "m = m'" by simp
    with Some have at: "digits19_at (c # cs) = Some m" by simp
    then have "window19 (c # cs) 0"
      by (simp only: window19_0) simp
    moreover have "m = take 19 (drop 0 (c # cs))"
      using digits19_at_Some [OF at] by (simp only: drop_0)
    ultimately show ?thesis by blast
  next
    case None
    with Cons.prems have "search_digits19 cs = Some m" by simp
    from Cons.IH [OF this] obtain k where
      k: "window19 cs k" "\<forall>j<k. \<not> window19 cs j" "m = take 19 (drop k cs)"
      by blast
    have "\<forall>j<Suc k. \<not> window19 (c # cs) j"
    proof (intro allI impI)
      fix j
      assume "j < Suc k"
      then show "\<not> window19 (c # cs) j"
        using None k(2) by (cases j) (simp_all add: window19_0 window19_Suc)
    qed
    moreover have "window19 (c # cs) (Suc k)"
      using k(1) by (simp add: window19_Suc)
    moreover have "m = take 19 (drop (Suc k) (c # cs))"
      using k(3) by simp
    ultimately show ?thesis by blast
  qed
qed

lemma search_digits19_None: "search_digits19 s = None \<Longrightarrow> \<not> window19 s i"
proof (induction s arbitrary: i)
  case Nil
  then show ?case by (simp add: window19_def)
next
  case (Cons c cs)
  then show ?case
    by (cases i) (auto simp: window19_0 window19_Suc split: option.splits)
qed

lemma group_digits_at_Some:
  "group_digits_at lit s = Some d \<Longrightarrow>
     d \<noteq> [] \<and> list_all is_digit d \<and> (\<exists>post. s = lit @ d @ post)"
proof -
  assume a: "group_digits_at lit s = Some d"
  then have p: "prefix lit s" and d: "d = takeWhile is_digit (drop (length lit) s)"
    and ne: "d \<noteq> []"
    by (auto simp: group_digits_at_def Let_def split: if_splits)
  from p obtain r where r: "s = lit @ r" by (auto simp: prefix_def)
  with d have "d = takeWhile is_digit r" by simp
  then have "r = d @ dropWhile is_digit r" and "list_all is_digit d"
    by (simp_all add: list_all_iff) (meson set_takeWhileD)
  with r ne show ?thesis by auto
qed

lemma search_group_Some:
  "search_group lit s = Some d \<Longrightarrow>
     d \<noteq> [] \<and> list_all is_digit d \<and> (\<exists>pre post. s = pre @ lit @ d @ post)"
proof (induction s)
  case Nil
  then show ?case by simp
next
  case (Cons c cs)
  show ?case
  proof (cases "group_digits_at lit (c # cs)")
    case (Some d')
    with Cons.prems have "d' = d" by simp
    with Some group_digits_at_Some [of lit "c # cs" d]
    have "d \<noteq> []" "list_all is_digit d" "\<exists>post. c # cs = [] @ lit @ d @ post"
      by auto
    then show ?thesis by blast
  next
    case None
    with Cons.prems have "search_group lit cs = Some d" by simp
    from Cons.IH [OF this] obtain pre post where
      "d \<noteq> []" "list_all is_digit d" "cs = pre @ lit @ d @ post"
      by blast
    then have "c # cs = (c # pre) @ lit @ d @ post" by simp
    with \<open>d \<noteq> []\<close> \<open>list_all is_digit d\<close> show ?thesis by blast
  qed
qed

lemma first_legacy_Some:
  "first_legacy ps s = Some d \<Longrightarrow>
     d \<noteq> [] \<and> list_all is_digit d \<and> (\<exists>pre post. s = pre @ d @ post)"
proof (induction ps)
  case Nil
  then show ?case by simp
next
  case (Cons p ps)
  show ?case
  proof (cases "search_group p s")
    case (Some d')
    with Cons.prems have "d' = d" by simp
    with Some search_group_Some [of p s d] obtain pre post where
      "d \<noteq> []" "list_all is_digit d" "s = pre @ p @ d @ post"
      by auto
    then have "s = (pre @ p) @ d @ post" by simp
    with \<open>d \<noteq> []\<close> \<open>list_all is_digit d\<close> show ?thesis by blast
  next
    case None
    with Cons.prems Cons.IH show ?thesis by simp
  qed
qed

lemma digits_inside_window:
  assumes "s = pre @ d @ post" and "list_all is_digit d" and "19 \<le> length d"
  shows "window19 s (length pre)"
proof -
  have "take 19 (drop (length pre) s) = take 19 d"
    using assms(1,3) by simp
  moreover have "list_all is_digit (take 19 d)"
    using assms(2) by (auto simp: list_all_iff dest: in_set_takeD)
  ultimately show ?thesis
    using assms(1,3) by (simp add: window19_def)
qed

lemma window19_length: "window19 s k \<Longrightarrow> length (take 19 (drop k s)) = 19"
  by (auto simp: window19_def)

lemma window19_digits: "window19 s k \<Longrightarrow> list_all is_digit (take 19 (drop k s))"
  by (simp add: window19_def)

lemma extract_aweme_id_cases:
  "extract_aweme_id head input_str =
     (case search_digits19 (resolved_input head input_str) of
        Some m \<Rightarrow> Some m
      | None \<Rightarrow> first_legacy legacy_patterns (resolved_input head input_str))"
  by (simp add: extract_aweme_id_def Let_def)



text \<open>Below U+0660 the only digits are the ASCII ones.\<close>

lemma is_digit_ascii: "c < 1632 \<Longrightarrow> is_digit c = (48 \<le> c \<and> c \<le> 57)"
  by (auto simp: is_digit_def digit_blocks_def)

lemmas extractor_eval =
  u_def strip_def is_space_def is_digit_ascii url_body_def match_url_at_def
  resolve_redirects_def resolved_input_def digits19_at_def group_digits_at_def
  legacy_patterns_def extract_aweme_id_def window19_def no_redirect_def Let_def




text \<open>
  C5, as stated, fails: on a URL whose path is \<^verbatim>\<open>/video/123456\<close> the legacy pattern
  returns the six digits.
\<close>

theorem extract_aweme_id_short_counterexample:
  "extract_aweme_id no_redirect url_with_short_id = Some (u ''123456'') \<and>
   length (u ''123456'') \<noteq> 19"
  by (simp add: extractor_eval url_with_short_id_def)

text \<open>
  C5, amended. The extractor returns \<open>None\<close> or a non-empty string of digits that is at
  most 19 long. It is exactly 19 long when the string searched holds 19 digits in a
  row (the general search), and between 1 and 18 long when the result comes from one
  of the legacy patterns.
\<close>

theorem extract_aweme_id_shape:
  assumes "extract_aweme_id head input_str = Some m"
  shows "m \<noteq> [] \<and> list_all is_digit m \<and> length m \<le> 19 \<and>
         (length m = 19) = (search_digits19 (resolved_input head input_str) \<noteq> None)"
proof (cases "search_digits19 (resolved_input head input_str)")
  case (Some m')
  with assms have "m' = m" by (simp add: extract_aweme_id_cases)
  with Some search_digits19_Some [of "resolved_input head input_str" m]
  obtain k where "window19 (resolved_input head input_str) k"
    and "m = take 19 (drop k (resolved_input head input_str))"
    by auto
  then have "length m = 19" and "list_all is_digit m"
    using window19_length window19_digits by auto
  with Some show ?thesis by auto
next
  case None
  let ?s = "resolved_input head input_str"
  from None assms have "first_legacy legacy_patterns ?s = Some m"
    by (simp add: extract_aweme_id_cases)
  from first_legacy_Some [OF this] obtain pre post where
    d: "m \<noteq> []" "list_all is_digit m" "?s = pre @ m @ post"
    by blast
  have "length m < 19"
  proof (rule ccontr)
    assume "\<not> length m < 19"
    then have "19 \<le> length m" by simp
    from digits_inside_window [OF d(3) d(2) this] search_digits19_None [OF None]
    show False by blast
  qed
  with d None show ?thesis by simp
qed

theorem extract_aweme_id_shape_witness:
  "extract_aweme_id no_redirect url_with_short_id = Some (u ''123456'') \<and>
   u ''123456'' \<noteq> [] \<and> list_all is_digit (u ''123456'') \<and> length (u ''123456'') \<le> 19"
proof -
  have e: "extract_aweme_id no_redirect url_with_short_id = Some (u ''123456'')"
    by (simp add: extractor_eval url_with_short_id_def)
  show ?thesis
    using extract_aweme_id_shape [OF e] e by blast
qed

section \<open>Properties of the grouping loop\<close>

lemma map_of_None_keys: "(map_of gs k = None) = (k \<notin> fst ` set gs)"
  by (simp add: map_of_eq_None_iff)

lemma groups_inv_empty: "groups_inv [] []"
  by (simp add: groups_inv_def)

lemma groups_inv_skip:
  assumes "groups_inv rs gs" and "row_video_id r = []"
  shows "groups_inv (rs @ [r]) gs"
  using assms by (auto simp: groups_inv_def list_all_iff)

lemma groups_inv_new:
  assumes "groups_inv rs gs" and "row_video_id r \<noteq> []"
    and "row_video_id r \<notin> fst ` set gs"
  shows "groups_inv (rs @ [r]) (gs @ [(row_video_id r, \<lparr>master = r, duplicates = []\<rparr>)])"
proof -
  have none: "filter (\<lambda>r'. row_video_id r' = row_video_id r) rs = []"
  proof -
    have "row_video_id r' \<noteq> row_video_id r" if "r' \<in> set rs" for r'
    proof
      assume eq: "row_video_id r' = row_video_id r"
      from assms(1) that have "row_video_id r' = [] \<or> row_video_id r' \<in> fst ` set gs"
        by (simp add: groups_inv_def list_all_iff)
      with eq assms(2,3) show False by simp
    qed
    then show ?thesis by (simp add: filter_empty_conv)
  qed
  show ?thesis
    using assms none by (auto simp: groups_inv_def list_all_iff group_rows_def)
qed

lemma groups_inv_dup:
  assumes "groups_inv rs gs" and "row_video_id r \<noteq> []"
    and "row_video_id r \<in> fst ` set gs"
  shows "groups_inv (rs @ [r])
           (map (\<lambda>kg. if fst kg = row_video_id r
                       then (fst kg, (snd kg)\<lparr>duplicates := duplicates (snd kg) @ [r]\<rparr>)
                       else kg) gs)"
proof -
  let ?f = "\<lambda>kg. if fst kg = row_video_id r
                   then (fst kg, (snd kg)\<lparr>duplicates := duplicates (snd kg) @ [r]\<rparr>)
                   else kg"
  have keys: "map fst (map ?f gs) = map fst gs"
    by (induction gs) auto
  then have keyset: "fst ` set (map ?f gs) = fst ` set gs"
    by (metis set_map)
  have "distinct (map fst (map ?f gs))"
    unfolding keys using assms(1) by (simp add: groups_inv_def)
  moreover have "list_all (\<lambda>kg. fst kg \<noteq> [] \<and>
      group_rows (snd kg) = filter (\<lambda>r'. row_video_id r' = fst kg) (rs @ [r])) (map ?f gs)"
    using assms(1) by (auto simp: groups_inv_def list_all_iff group_rows_def)
  moreover have "list_all (\<lambda>r'. row_video_id r' = [] \<or> row_video_id r' \<in> fst ` set (map ?f gs))
      (rs @ [r])"
    using assms(1,3) unfolding keyset by (auto simp: groups_inv_def list_all_iff)
  ultimately show ?thesis
    unfolding groups_inv_def by blast
qed

lemma groups_inv_add_record:
  "groups_inv rs gs \<Longrightarrow> groups_inv (rs @ [r]) (add_record gs r)"
  using groups_inv_skip groups_inv_new groups_inv_dup
  by (simp add: add_record_def Let_def map_of_None_keys)

lemma groups_inv_group_records: "groups_inv rs (group_records rs)"
  unfolding group_records_def
  by (induction rs rule: rev_induct) (simp_all add: groups_inv_empty groups_inv_add_record)

lemma row_video_id_shapes:
  "map_of (row_fields r) key_video_id = None \<Longrightarrow> row_video_id r = []"
  "map_of (row_fields r) key_video_id = Some (JList []) \<Longrightarrow> row_video_id r = []"
  "map_of (row_fields r) key_video_id = Some (JStr s) \<Longrightarrow> row_video_id r = strip s"
  "map_of (row_fields r) key_video_id = Some (JList (JStr s # rest)) \<Longrightarrow>
     row_video_id r = strip s"
  "map_of (row_fields r) key_video_id = Some (JList (JDict d # rest)) \<Longrightarrow>
     map_of d (u ''text'') = Some (JStr s) \<Longrightarrow> row_video_id r = strip s"
  by (simp_all add: row_video_id_def extract_video_id_def get_none_def get_default_def
        py_str_def strip_def)

lemmas sync_eval =
  u_def strip_def is_space_def py_str_def get_none_def get_default_def
  key_video_id_def key_likes_def key_plays_def key_desc_def removed_title_def warning_sign_def
  extract_video_id_def row_video_id_def add_record_def group_records_def group_rows_def
  desc_value_def is_error_def has_likes_def has_plays_def is_complete_def
  sample_id_a_def sample_id_b_def sample_row1_def sample_row2_def sample_row3_def
  sample_row4_def sample_rows_def sample_groups_def Let_def

lemma sample_rows_grouped: "group_records sample_rows = sample_groups"
  by (simp add: sync_eval)

text \<open>
  C3, as stated, fails: the key of the loop is the text of the id column, not the
  identifier that the extractor of the fetch layer finds in it. Two rows for one video,
  one holding the identifier and one the address of the video page, resolve to the same
  identifier and still make two groups, each with its own master and no duplicate.
\<close>

theorem group_records_raw_text_counterexample:
  "extract_aweme_id no_redirect (row_video_id bare_id_row) = Some (u ''7567352731951164082'') \<and>
   extract_aweme_id no_redirect (row_video_id url_id_row) = Some (u ''7567352731951164082'') \<and>
   group_records [bare_id_row, url_id_row] =
     [(u ''7567352731951164082'', \<lparr>master = bare_id_row, duplicates = []\<rparr>),
      (u ''https://www.douyin.com/video/7567352731951164082'',
       \<lparr>master = url_id_row, duplicates = []\<rparr>)]"
proof -
  have a: "row_video_id bare_id_row = u ''7567352731951164082''"
    by (simp add: sync_eval bare_id_row_def)
  have b: "row_video_id url_id_row = u ''https://www.douyin.com/video/7567352731951164082''"
    by (simp add: sync_eval url_id_row_def)
  have ea: "extract_aweme_id no_redirect (u ''7567352731951164082'') =
      Some (u ''7567352731951164082'')"
    by (simp add: extractor_eval)
  have eb: "extract_aweme_id no_redirect (u ''https://www.douyin.com/video/7567352731951164082'') =
      Some (u ''7567352731951164082'')"
    by (simp add: extractor_eval)
  have ne: "u ''7567352731951164082'' \<noteq> u ''https://www.douyin.com/video/7567352731951164082''"
    by (simp add: u_def)
  have g: "group_records [bare_id_row, url_id_row] =
     [(u ''7567352731951164082'', \<lparr>master = bare_id_row, duplicates = []\<rparr>),
      (u ''https://www.douyin.com/video/7567352731951164082'',
       \<lparr>master = url_id_row, duplicates = []\<rparr>)]"
    using ne by (simp add: group_records_def add_record_def Let_def a b u_def)
  from a b ea eb g show ?thesis by simp
qed

text \<open>
  C3, amended. The rows are grouped by the text of the id column as \<^verbatim>\<open>extract_video_id\<close>
  reads it (the string itself, or the first item of a list, or the \<^verbatim>\<open>text\<close> of that item
  when it is a rich-text item; stripped of white space; empty when the column is absent
  or empty), not by an identifier resolved from that text. The loop gives every such
  text one group (the keys are distinct and never empty). The rows of a group, master
  first, are exactly the rows of the table that carry the group's text, in the order
  of the table: the master is the first of them and the duplicates are the later ones.
  A row whose text is not empty is in exactly one group; a row whose text is empty is
  in none, and the loop has no error result for it.
\<close>

theorem group_records_partition:
  "distinct (map fst (group_records rs)) \<and>
   (\<forall>vid g. (vid, g) \<in> set (group_records rs) \<longrightarrow>
      vid \<noteq> [] \<and> master g # duplicates g = filter (\<lambda>r. row_video_id r = vid) rs) \<and>
   (\<forall>r \<in> set rs. row_video_id r \<noteq> [] \<longrightarrow>
      (\<exists>!kg. kg \<in> set (group_records rs) \<and> r \<in> set (group_rows (snd kg)))) \<and>
   (\<forall>r \<in> set rs. row_video_id r = [] \<longrightarrow>
      (\<forall>kg \<in> set (group_records rs). r \<notin> set (group_rows (snd kg)))) \<and>
   (\<forall>r s d rest.
      (map_of (row_fields r) key_video_id = None \<longrightarrow> row_video_id r = []) \<and>
      (map_of (row_fields r) key_video_id = Some (JList []) \<longrightarrow> row_video_id r = []) \<and>
      (map_of (row_fields r) key_video_id = Some (JStr s) \<longrightarrow> row_video_id r = strip s) \<and>
      (map_of (row_fields r) key_video_id = Some (JList (JStr s # rest)) \<longrightarrow>
         row_video_id r = strip s) \<and>
      (map_of (row_fields r) key_video_id = Some (JList (JDict d # rest)) \<and>
       map_of d (u ''text'') = Some (JStr s) \<longrightarrow> row_video_id r = strip s))"
proof -
  let ?gs = "group_records rs"
  have inv: "groups_inv rs ?gs" by (rule groups_inv_group_records)
  then have d: "distinct (map fst ?gs)"
    by (simp add: groups_inv_def)
  have rows: "fst kg \<noteq> [] \<and> group_rows (snd kg) = filter (\<lambda>r. row_video_id r = fst kg) rs"
    if "kg \<in> set ?gs" for kg
    using inv that by (simp add: groups_inv_def list_all_iff)
  have covered: "row_video_id r = [] \<or> row_video_id r \<in> fst ` set ?gs" if "r \<in> set rs" for r
    using inv that by (simp add: groups_inv_def list_all_iff)
  have mem: "(r \<in> set (group_rows (snd kg))) = (r \<in> set rs \<and> row_video_id r = fst kg)"
    if "kg \<in> set ?gs" for kg r
    using rows [OF that] by auto
  have p2: "\<forall>vid g. (vid, g) \<in> set ?gs \<longrightarrow>
      vid \<noteq> [] \<and> master g # duplicates g = filter (\<lambda>r. row_video_id r = vid) rs"
    using rows by (force simp: group_rows_def)
  have p3: "\<forall>r \<in> set rs. row_video_id r \<noteq> [] \<longrightarrow>
      (\<exists>!kg. kg \<in> set ?gs \<and> r \<in> set (group_rows (snd kg)))"
  proof (intro ballI impI)
    fix r
    assume r: "r \<in> set rs" and ne: "row_video_id r \<noteq> []"
    with covered obtain kg where kg: "kg \<in> set ?gs" "fst kg = row_video_id r"
      by force
    show "\<exists>!kg. kg \<in> set ?gs \<and> r \<in> set (group_rows (snd kg))"
    proof (rule ex1I [of _ kg])
      show "kg \<in> set ?gs \<and> r \<in> set (group_rows (snd kg))"
        using kg r mem by simp
    next
      fix kg'
      assume a: "kg' \<in> set ?gs \<and> r \<in> set (group_rows (snd kg'))"
      then have "kg' \<in> set ?gs" and "r \<in> set (group_rows (snd kg'))" by simp_all
      with mem [of kg' r] have "row_video_id r = fst kg'" by simp
      with kg(2) have "fst kg' = fst kg" by simp
      with d a kg(1) show "kg' = kg"
        by (metis eq_key_imp_eq_value prod.collapse)
    qed
  qed
  have p4: "\<forall>r \<in> set rs. row_video_id r = [] \<longrightarrow>
      (\<forall>kg \<in> set ?gs. r \<notin> set (group_rows (snd kg)))"
    using mem rows by metis
  have p5: "\<forall>r s d rest.
      (map_of (row_fields r) key_video_id = None \<longrightarrow> row_video_id r = []) \<and>
      (map_of (row_fields r) key_video_id = Some (JList []) \<longrightarrow> row_video_id r = []) \<and>
      (map_of (row_fields r) key_video_id = Some (JStr s) \<longrightarrow> row_video_id r = strip s) \<and>
      (map_of (row_fields r) key_video_id = Some (JList (JStr s # rest)) \<longrightarrow>
         row_video_id r = strip s) \<and>
      (map_of (row_fields r) key_video_id = Some (JList (JDict d # rest)) \<and>
       map_of d (u ''text'') = Some (JStr s) \<longrightarrow> row_video_id r = strip s)"
    by (simp add: row_video_id_shapes)
  from d p2 p3 p4 p5 show ?thesis by blast
qed

theorem group_records_partition_witness:
  "distinct (map fst (group_records sample_rows)) \<and> group_records sample_rows = sample_groups \<and>
   row_video_id sample_row1 = sample_id_a \<and> row_video_id sample_row3 = []"
proof -
  have e: "group_records sample_rows = sample_groups"
    by (simp add: sync_eval)
  have m1: "map_of (row_fields sample_row1) key_video_id =
      Some (JList (JDict [(u ''text'', JStr (u '' 7567352731951164082 ''))] # [])) \<and>
      map_of [(u ''text'', JStr (u '' 7567352731951164082 ''))] (u ''text'') =
        Some (JStr (u '' 7567352731951164082 ''))"
    by (simp add: sample_row1_def)
  have s1: "strip (u '' 7567352731951164082 '') = sample_id_a"
    by (simp add: sync_eval)
  have m3: "map_of (row_fields sample_row3) key_video_id = None"
    by (simp add: sample_row3_def key_video_id_def key_desc_def)
  note inst = group_records_partition [of sample_rows]
  from inst have d: "distinct (map fst (group_records sample_rows))" by blast
  from inst m1 have "row_video_id sample_row1 = strip (u '' 7567352731951164082 '')" by blast
  with s1 have n1: "row_video_id sample_row1 = sample_id_a" by simp
  from inst m3 have n3: "row_video_id sample_row3 = []" by blast
  from d e n1 n3 show ?thesis by blast
qed

section \<open>Properties of the classification and the planner\<close>






lemma is_complete_Inr_iff: "(\<exists>c. is_complete (row_fields (master g)) = Inr c) = title_is_text g"
  by (cases "desc_value (row_fields (master g))")
     (simp_all add: title_is_text_def is_complete_def is_error_def)

lemma is_complete_Inl: "\<not> title_is_text g \<Longrightarrow> is_complete (row_fields (master g)) = Inl AttributeError"
  by (cases "desc_value (row_fields (master g))")
     (simp_all add: title_is_text_def is_complete_def is_error_def)

lemma videos_to_fetch_force_all:
  "videos_to_fetch True gs =
     (if list_all (\<lambda>kg. title_is_text (snd kg)) gs then Inr (map fst gs)
      else Inl AttributeError)"
proof (induction gs)
  case Nil
  then show ?case by simp
next
  case (Cons kg gs)
  obtain vid g where kg: "kg = (vid, g)" by (cases kg)
  show ?case
  proof (cases "title_is_text g")
    case True
    with is_complete_Inr_iff [of g] obtain c where "is_complete (row_fields (master g)) = Inr c"
      by blast
    with True kg Cons.IH show ?thesis by simp
  next
    case False
    with kg is_complete_Inl [of g] show ?thesis by simp
  qed
qed

lemma videos_to_fetch_complete_none:
  "list_all (\<lambda>kg. is_complete (row_fields (master (snd kg))) = Inr True) gs \<Longrightarrow>
     videos_to_fetch False gs = Inr []"
  by (induction gs) auto

text \<open>
  C7. With force set, the planner marks every group: the list to fetch is the list of
  all identifiers, in the order of the groups, whatever the classification says. When
  every group is complete, the forced run still fetches all of them, and the run
  without force fetches none. (The classification is computed before force is looked
  at, so a master whose title is not a string ends either run with AttributeError.)
\<close>

theorem videos_to_fetch_force:
  "videos_to_fetch True gs =
     (if list_all (\<lambda>kg. title_is_text (snd kg)) gs then Inr (map fst gs)
      else Inl AttributeError) \<and>
   (list_all (\<lambda>kg. is_complete (row_fields (master (snd kg))) = Inr True) gs \<longrightarrow>
      videos_to_fetch True gs = Inr (map fst gs) \<and> videos_to_fetch False gs = Inr [])"
proof -
  have "list_all (\<lambda>kg. title_is_text (snd kg)) gs"
    if "list_all (\<lambda>kg. is_complete (row_fields (master (snd kg))) = Inr True) gs"
    using that is_complete_Inr_iff by (auto simp: list_all_iff)
  then show ?thesis
    using videos_to_fetch_force_all [of gs] videos_to_fetch_complete_none [of gs] by auto
qed

theorem videos_to_fetch_force_witness:
  "list_all (\<lambda>kg. title_is_text (snd kg)) sample_groups \<and>
   videos_to_fetch True sample_groups = Inr [sample_id_a, sample_id_b] \<and>
   videos_to_fetch False sample_groups = Inr [sample_id_b] \<and>
   videos_to_fetch True [(sample_id_a, \<lparr>master = sample_row1, duplicates = []\<rparr>)] =
     Inr [sample_id_a] \<and>
   videos_to_fetch False [(sample_id_a, \<lparr>master = sample_row1, duplicates = []\<rparr>)] = Inr []"
proof -
  let ?one = "[(sample_id_a, \<lparr>master = sample_row1, duplicates = []\<rparr>)]"
  have t: "list_all (\<lambda>kg. title_is_text (snd kg)) sample_groups"
    by (simp add: sync_eval title_is_text_def)
  have c: "list_all (\<lambda>kg. is_complete (row_fields (master (snd kg))) = Inr True) ?one"
    by (simp add: sync_eval)
  have nf: "videos_to_fetch False sample_groups = Inr [sample_id_b]"
    by (simp add: sync_eval)
  from videos_to_fetch_force [of sample_groups] t
  have a: "videos_to_fetch True sample_groups = Inr (map fst sample_groups)" by simp
  have m: "map fst sample_groups = [sample_id_a, sample_id_b]"
    by (simp add: sample_groups_def)
  from videos_to_fetch_force [of ?one] c
  have b: "videos_to_fetch True ?one = Inr (map fst ?one) \<and> videos_to_fetch False ?one = Inr []"
    by blast
  from t a m nf b show ?thesis by simp
qed

section \<open>Properties of the update loop\<close>

lemma parse_results_keys:
  "(k, p) \<in> set (parse_results parse br) \<Longrightarrow> \<exists>v. (k, Some v) \<in> set br \<and> truthy v"
proof (induction parse br rule: parse_results.induct)
  case (1 parse)
  then show ?case by simp
next
  case (2 parse video_id raw_data rest)
  show ?case
  proof (cases raw_data)
    case None
    with 2 show ?thesis by auto
  next
    case (Some v)
    show ?thesis
    proof (cases "truthy v")
      case True
      with 2 Some show ?thesis by auto
    next
      case False
      with 2 Some show ?thesis by auto
    qed
  qed
qed

lemma parse_results_absent:
  assumes "distinct (map fst br)" and "map_of br vid = None \<or> map_of br vid = Some None"
  shows "map_of (parse_results parse br) vid = None"
proof (rule ccontr)
  assume "map_of (parse_results parse br) vid \<noteq> None"
  then obtain p where "(vid, p) \<in> set (parse_results parse br)"
    by (auto dest: map_of_SomeD)
  from parse_results_keys [OF this] obtain v where v: "(vid, Some v) \<in> set br"
    by blast
  with assms(1) have "map_of br vid = Some (Some v)"
    by simp
  with assms(2) show False by simp
qed

lemma build_updates_filter:
  "build_updates pr tf gs =
     map (\<lambda>kg. update_for pr (fst kg) (snd kg)) (filter (\<lambda>kg. fst kg \<in> set tf) gs)"
  by (induction pr tf gs rule: build_updates.induct) simp_all

lemma update_for_record_id: "upd_record_id (update_for pr vid g) = record_id (master g)"
  by (simp add: update_for_def split: option.splits)

text \<open>
  C6. The update loop writes one update per group whose identifier is in the list to
  fetch, addressed to the record id of the group's master, in the order of the
  groups, and none for any other group. When the fetch result of an identifier is
  \<^verbatim>\<open>None\<close> or missing, the update of that group has one field only: the title, set to the
  marker of a video that is gone. (\<open>batch_results\<close> is a dictionary: its keys are
  distinct.)
\<close>

theorem apply_results_frame:
  assumes "distinct (map fst batch_results)"
  shows "apply_results parse video_groups to_fetch batch_results =
           map (\<lambda>kg. update_for (parse_results parse batch_results) (fst kg) (snd kg))
             (filter (\<lambda>kg. fst kg \<in> set to_fetch) video_groups) \<and>
         map upd_record_id (apply_results parse video_groups to_fetch batch_results) =
           map (\<lambda>kg. record_id (master (snd kg)))
             (filter (\<lambda>kg. fst kg \<in> set to_fetch) video_groups) \<and>
         (\<forall>vid g. map_of batch_results vid = None \<or> map_of batch_results vid = Some None \<longrightarrow>
            update_for (parse_results parse batch_results) vid g =
              \<lparr>upd_record_id = record_id (master g),
               upd_fields = [(key_desc, JStr removed_title)]\<rparr>)"
proof (intro conjI allI impI)
  show a: "apply_results parse video_groups to_fetch batch_results =
           map (\<lambda>kg. update_for (parse_results parse batch_results) (fst kg) (snd kg))
             (filter (\<lambda>kg. fst kg \<in> set to_fetch) video_groups)"
    by (simp add: apply_results_def build_updates_filter)
  show "map upd_record_id (apply_results parse video_groups to_fetch batch_results) =
           map (\<lambda>kg. record_id (master (snd kg)))
             (filter (\<lambda>kg. fst kg \<in> set to_fetch) video_groups)"
    unfolding a by (simp add: update_for_record_id comp_def)
next
  fix vid g
  assume "map_of batch_results vid = None \<or> map_of batch_results vid = Some None"
  from parse_results_absent [OF assms this]
  show "update_for (parse_results parse batch_results) vid g =
              \<lparr>upd_record_id = record_id (master g),
               upd_fields = [(key_desc, JStr removed_title)]\<rparr>"
    by (simp add: update_for_def)
qed

theorem apply_results_frame_witness:
  "distinct (map fst sample_batch_results) \<and>
   map_of sample_batch_results sample_id_b = Some None \<and>
   apply_results sample_parse sample_groups [sample_id_b] sample_batch_results =
     [\<lparr>upd_record_id = u ''rec4'', upd_fields = [(key_desc, JStr removed_title)]\<rparr>]"
proof -
  have d: "distinct (map fst sample_batch_results)"
    by (simp add: sample_batch_results_def sync_eval)
  have n: "map_of sample_batch_results sample_id_b = Some None"
    by (simp add: sample_batch_results_def sync_eval)
  have f: "filter (\<lambda>kg. fst kg \<in> set [sample_id_b]) sample_groups =
      [(sample_id_b, \<lparr>master = sample_row4, duplicates = []\<rparr>)]"
    by (simp add: sync_eval)
  have r: "record_id (master \<lparr>master = sample_row4, duplicates = []\<rparr>) = u ''rec4''"
    by (simp add: sample_row4_def)
  note inst = apply_results_frame [OF d, of sample_parse sample_groups "[sample_id_b]"]
  from inst n have
    "update_for (parse_results sample_parse sample_batch_results) sample_id_b
        \<lparr>master = sample_row4, duplicates = []\<rparr> =
      \<lparr>upd_record_id = record_id (master \<lparr>master = sample_row4, duplicates = []\<rparr>),
       upd_fields = [(key_desc, JStr removed_title)]\<rparr>"
    by blast
  moreover from inst have
    "apply_results sample_parse sample_groups [sample_id_b] sample_batch_results =
       map (\<lambda>kg. update_for (parse_results sample_parse sample_batch_results) (fst kg) (snd kg))
         (filter (\<lambda>kg. fst kg \<in> set [sample_id_b]) sample_groups)"
    by blast
  ultimately have
    "apply_results sample_parse sample_groups [sample_id_b] sample_batch_results =
       [\<lparr>upd_record_id = u ''rec4'', upd_fields = [(key_desc, JStr removed_title)]\<rparr>]"
    unfolding f r by simp
  with d n show ?thesis by blast
qed

section \<open>Properties of the brand registry\<close>

lemma map_of_replace_same:
  "map_of d k \<noteq> None \<Longrightarrow>
     map_of (map (\<lambda>kv. if fst kv = k then (k, v) else kv) d) k = Some v"
  by (induction d) auto

lemma map_of_replace_other:
  "k' \<noteq> k \<Longrightarrow> map_of (map (\<lambda>kv. if fst kv = k then (k, v) else kv) d) k' = map_of d k'"
  by (induction d) auto

lemma map_of_dict_set_same: "map_of (dict_set d k v) k = Some v"
  by (cases "map_of d k") (simp_all add: dict_set_def map_add_def map_of_replace_same)

lemma map_of_dict_set_other: "k' \<noteq> k \<Longrightarrow> map_of (dict_set d k v) k' = map_of d k'"
  by (cases "map_of d k'") (simp_all add: dict_set_def map_add_def map_of_replace_other)

lemma yuntu_url_suffix: "suffix (u ''aadvid='' @ aadvid) (yuntu_url_prefix @ aadvid)"
  by (simp add: yuntu_url_prefix_def u_def suffix_def)

text \<open>
  C10. After \<^verbatim>\<open>add_brand(key, name, aadvid, industry)\<close>, \<^verbatim>\<open>get_brand_url(key)\<close> returns the
  dashboard URL built from the advertiser id, which ends in \<^verbatim>\<open>aadvid=\<close> followed by that id,
  and the entry of every other key is what it was before.
\<close>

theorem add_brand_get_brand_url:
  "get_brand_url (add_brand st brand_key name aadvid industry) brand_key =
     Inr (Some (JStr (yuntu_url_prefix @ aadvid))) \<and>
   suffix (u ''aadvid='' @ aadvid) (yuntu_url_prefix @ aadvid) \<and>
   (\<forall>k. k \<noteq> brand_key \<longrightarrow>
      map_of (load_brands_config (add_brand st brand_key name aadvid industry)) k =
        map_of (load_brands_config st) k)"
proof -
  have l: "load_brands_config (add_brand st brand_key name aadvid industry) =
      dict_set (load_brands_config st) brand_key (brand_entry name aadvid industry)"
    by (simp add: add_brand_def load_brands_config_def Let_def)
  have "get_brand_url (add_brand st brand_key name aadvid industry) brand_key =
     Inr (Some (JStr (yuntu_url_prefix @ aadvid)))"
    unfolding get_brand_url_def l map_of_dict_set_same
    by (simp add: brand_entry_def u_def)
  moreover have "\<forall>k. k \<noteq> brand_key \<longrightarrow>
      map_of (load_brands_config (add_brand st brand_key name aadvid industry)) k =
        map_of (load_brands_config st) k"
    unfolding l by (simp add: map_of_dict_set_other)
  ultimately show ?thesis using yuntu_url_suffix by blast
qed

theorem add_brand_get_brand_url_witness:
  "u ''lego'' \<noteq> u ''nike'' \<and>
   get_brand_url (add_brand initial_store (u ''nike'') (u ''Nike'') (u ''42'') (u ''sport''))
     (u ''nike'') = Inr (Some (JStr (yuntu_url_prefix @ u ''42''))) \<and>
   map_of (load_brands_config
       (add_brand initial_store (u ''nike'') (u ''Nike'') (u ''42'') (u ''sport''))) (u ''lego'') =
     map_of DEFAULT_BRANDS (u ''lego'')"
proof -
  have ne: "u ''lego'' \<noteq> u ''nike''" by (simp add: u_def)
  have i: "load_brands_config initial_store = DEFAULT_BRANDS"
    by (simp add: load_brands_config_def initial_store_def)
  from add_brand_get_brand_url [of initial_store "u ''nike''" "u ''Nike''" "u ''42''" "u ''sport''"]
    ne i show ?thesis by simp
qed

section \<open>Properties of the batch fetch\<close>

lemma dict_set_key_iff: "has_key (dict_set d k v) k' = (k' = k \<or> has_key d k')"
proof (cases "k' = k")
  case True
  then show ?thesis by (simp add: has_key_def map_of_dict_set_same)
next
  case False
  then show ?thesis by (simp add: has_key_def map_of_dict_set_other)
qed

lemma insert_details_keys:
  "has_key res k \<Longrightarrow> has_key (insert_details res xs) k"
proof (induction xs arbitrary: res)
  case Nil
  then show ?case by simp
next
  case (Cons x xs)
  show ?case
  proof (cases "convert_detail x")
    case (Inl e)
    with Cons.prems show ?thesis by simp
  next
    case (Inr r)
    show ?thesis
    proof (cases r)
      case None
      with Inr Cons show ?thesis by simp
    next
      case (Some p)
      obtain aweme_id converted where p: "p = (aweme_id, converted)" by (cases p)
      have "has_key (dict_set res aweme_id (Some converted)) k"
        using Cons.prems by (simp add: dict_set_key_iff)
      from Cons.IH [OF this] Inr Some p show ?thesis by simp
    qed
  qed
qed

lemma web_results_keys:
  "has_key res k \<Longrightarrow> has_key (web_results json_loads res resp) k"
  by (simp add: web_results_def insert_aweme_list_def insert_details_keys
      split: sum.splits jv.splits)

lemma mark_missing_keys:
  "mark_missing env res ids = Inr res' \<Longrightarrow>
     (\<forall>k. has_key res k \<longrightarrow> has_key res' k) \<and> (\<forall>k \<in> set ids. has_key res' k)"
proof (induction env res ids arbitrary: res' rule: mark_missing.induct)
  case (1 env res)
  then show ?case by simp
next
  case (2 env res aweme_id ids)
  let ?res1 = "dict_set res aweme_id None"
  show ?case
  proof (cases "has_key res aweme_id")
    case True
    with "2.prems" have "mark_missing env res ids = Inr res'" by simp
    from "2.IH"(1) [OF True this] True show ?thesis by auto
  next
    case absent: False
    have k1: "has_key ?res1 aweme_id"
      and m1: "\<forall>k. has_key res k \<longrightarrow> has_key ?res1 k"
      by (simp_all add: dict_set_key_iff)
    show ?thesis
    proof (cases "fetch_single env (video_url_prefix @ aweme_id)")
      case None
      with absent "2.prems" have r: "mark_missing env ?res1 ids = Inr res'"
        by (simp add: Let_def)
      from "2.IH"(2) [OF absent refl None r] k1 m1 show ?thesis by auto
    next
      case (Some single_data)
      show ?thesis
      proof (cases "truthy single_data")
        case False
        with absent Some "2.prems" have r: "mark_missing env ?res1 ids = Inr res'"
          by (simp add: Let_def)
        have f: "\<not> truthy single_data" using False .
        from "2.IH"(3) [OF absent refl Some _ r] f k1 m1 show ?thesis
          by auto
      next
        case True
        with absent Some "2.prems" obtain code where
          c: "py_get single_data (u ''code'') JNull = Inr code"
          by (cases "py_get single_data (u ''code'') JNull") (auto simp: Let_def)
        have t: "\<not> \<not> truthy single_data" using True by simp
        show ?thesis
        proof (cases "code = JInt 0 \<or> code = JBool False")
          case ok: True
          let ?res2 = "dict_set ?res1 aweme_id (Some single_data)"
          from absent Some True c ok "2.prems" have r: "mark_missing env ?res2 ids = Inr res'"
            by (auto simp: Let_def)
          have k2: "has_key ?res2 aweme_id"
            and m2: "\<forall>k. has_key res k \<longrightarrow> has_key ?res2 k"
            by (simp_all add: dict_set_key_iff)
          from "2.IH"(4) [OF absent refl Some t c ok r] k2 m2 show ?thesis
            by auto
        next
          case no: False
          from absent Some True c no "2.prems" have r: "mark_missing env ?res1 ids = Inr res'"
            by (auto simp: Let_def)
          from "2.IH"(5) [OF absent refl Some t c no r] k1 m1 show ?thesis
            by auto
        qed
      qed
    qed
  qed
qed

lemma process_chunks_keys:
  "process_chunks env i res chunks = Inr res' \<Longrightarrow>
     (\<forall>k. has_key res k \<longrightarrow> has_key res' k) \<and> (\<forall>k \<in> set (concat chunks). has_key res' k)"
proof (induction chunks arbitrary: i res)
  case Nil
  then show ?case by simp
next
  case (Cons batch_ids rest)
  from Cons.prems obtain resp where p: "post_web env i batch_ids = Some resp"
    by (cases "post_web env i batch_ids") auto
  let ?web = "web_results (loads env) res resp"
  from Cons.prems p obtain res1 where
    m: "mark_missing env ?web batch_ids = Inr res1"
    and r: "process_chunks env (i + 50) res1 rest = Inr res'"
    by (cases "mark_missing env ?web batch_ids") auto
  from mark_missing_keys [OF m] have
    a: "\<forall>k. has_key ?web k \<longrightarrow> has_key res1 k" and b: "\<forall>k \<in> set batch_ids. has_key res1 k"
    by simp_all
  from Cons.IH [OF r] have
    c: "\<forall>k. has_key res1 k \<longrightarrow> has_key res' k" and d: "\<forall>k \<in> set (concat rest). has_key res' k"
    by simp_all
  from a b c d web_results_keys [of res _ "loads env" resp] show ?case by auto
qed

lemma concat_chunks_of: "0 < n \<Longrightarrow> concat (chunks_of n xs) = xs"
proof (induction n xs rule: chunks_of.induct)
  case (1 n xs)
  show ?case
  proof (cases "xs = []")
    case True
    then show ?thesis by (simp add: chunks_of.simps [of n "[]"])
  next
    case False
    with 1 have "concat (chunks_of n (drop n xs)) = drop n xs" by simp
    with False "1.prems" show ?thesis by (simp add: chunks_of.simps [of n xs])
  qed
qed

lemma apply_stat_keys:
  "apply_stat env res stat = Inr res' \<Longrightarrow> has_key res k \<Longrightarrow> has_key res' k"
  by (auto simp: apply_stat_def bind_err_def Let_def dict_set_key_iff
      split: sum.splits option.splits if_splits)

lemma apply_stats_list_keys:
  "has_key res k \<Longrightarrow> has_key (apply_stats_list env res stats) k"
proof (induction stats arbitrary: res)
  case Nil
  then show ?case by simp
next
  case (Cons stat stats)
  show ?case
  proof (cases "apply_stat env res stat")
    case (Inl e)
    with Cons.prems show ?thesis by simp
  next
    case (Inr res1)
    from apply_stat_keys [OF Inr Cons.prems] have "has_key res1 k" .
    from Cons.IH [OF this] Inr show ?thesis by simp
  qed
qed

lemma supplement_batch_keys:
  "has_key res k \<Longrightarrow> has_key (supplement_batch env i res batch_ids) k"
  by (simp add: supplement_batch_def apply_stats_list_keys
      split: option.splits sum.splits jv.splits)

lemma supplement_all_keys:
  "has_key res k \<Longrightarrow> has_key (supplement_all env i res chunks) k"
  by (induction chunks arbitrary: i res) (simp_all add: supplement_batch_keys)

lemma foldl_all_none:
  "map_of (foldl (\<lambda>d aweme_id. dict_set d aweme_id None) d ids) k =
     (if k \<in> set ids then Some None else map_of d k)"
proof (induction ids arbitrary: d)
  case Nil
  then show ?case by simp
next
  case (Cons a ids)
  have "map_of (foldl (\<lambda>d aweme_id. dict_set d aweme_id None) (dict_set d a None) ids) k =
      (if k \<in> set ids then Some None else map_of (dict_set d a None) k)"
    by (rule Cons.IH)
  then show ?case
    by (cases "k = a") (simp_all add: map_of_dict_set_same map_of_dict_set_other)
qed

lemma map_of_all_none: "map_of (all_none ids) k = (if k \<in> set ids then Some None else None)"
  by (simp add: all_none_def foldl_all_none)

lemma batch_body_keys:
  assumes "batch_body env ids = Inr res" and "k \<in> set ids"
  shows "has_key res k"
proof -
  from assms(1) obtain res0 where
    p: "process_chunks env 0 [] (chunks_of 50 ids) = Inr res0"
    and s: "res = supplement_all env 0 res0 (chunks_of 2 (successful_ids res0))"
    by (cases "process_chunks env 0 [] (chunks_of 50 ids)") (auto simp: batch_body_def)
  from process_chunks_keys [OF p] assms(2) have "has_key res0 k"
    by (simp add: concat_chunks_of)
  then show ?thesis unfolding s by (rule supplement_all_keys)
qed

text \<open>
  C9. Whatever the HTTP layer does, the mapping that \<^verbatim>\<open>fetch_videos_batch\<close> returns has every
  requested identifier as a key, bound to a record or to \<^verbatim>\<open>None\<close>. The empty request
  gives the empty mapping. When an exception reaches the outer handler, every
  requested identifier is bound to \<^verbatim>\<open>None\<close> and the mapping has no other key.
\<close>

theorem fetch_videos_batch_keys:
  "fetch_videos_batch env [] = [] \<and>
   (\<forall>k \<in> set aweme_ids. \<exists>v. map_of (fetch_videos_batch env aweme_ids) k = Some v) \<and>
   (\<forall>e. batch_body env aweme_ids = Inl e \<longrightarrow>
      fetch_videos_batch env aweme_ids = all_none aweme_ids \<and>
      (\<forall>k. map_of (fetch_videos_batch env aweme_ids) k =
             (if k \<in> set aweme_ids then Some None else None)))"
proof (intro conjI ballI allI impI)
  show "fetch_videos_batch env [] = []"
    by (simp add: fetch_videos_batch_def)
next
  fix k
  assume k: "k \<in> set aweme_ids"
  then have ne: "aweme_ids \<noteq> []" by auto
  show "\<exists>v. map_of (fetch_videos_batch env aweme_ids) k = Some v"
  proof (cases "batch_body env aweme_ids")
    case (Inl e)
    with ne k show ?thesis by (simp add: fetch_videos_batch_def map_of_all_none)
  next
    case (Inr res)
    from batch_body_keys [OF Inr k] Inr ne show ?thesis
      by (auto simp: fetch_videos_batch_def has_key_def)
  qed
next
  fix e
  assume e: "batch_body env aweme_ids = Inl e"
  show a: "fetch_videos_batch env aweme_ids = all_none aweme_ids"
    using e by (cases "aweme_ids = []") (simp_all add: fetch_videos_batch_def all_none_def)
  fix k
  show "map_of (fetch_videos_batch env aweme_ids) k =
      (if k \<in> set aweme_ids then Some None else None)"
    unfolding a by (rule map_of_all_none)
qed

lemma chunks_of_Nil: "chunks_of n [] = []"
  by (simp add: chunks_of.simps [of n "[]"])

lemma chunks_of_Cons:
  "0 < n \<Longrightarrow> chunks_of n (x # xs) = take n (x # xs) # chunks_of n (drop n (x # xs))"
  by (simp add: chunks_of.simps [of n "x # xs"])

lemmas batch_eval =
  u_def py_str_def get_none_def get_default_def py_get_def bind_err_def or_empty_dict_def
  video_url_prefix_def has_key_def dict_set_def convert_detail_def aweme_list_of_def
  insert_aweme_list_def web_results_def chunks_of_Nil chunks_of_Cons py_int_def
  set_play_count_def apply_stat_def supplement_batch_def successful_ids_def batch_body_def
  all_none_def fetch_videos_batch_def sample_id_a_def sample_id_b_def sample_id_c_def
  sample_detail_def sample_web_response_def sample_stats_response_def sample_env_def
  unreachable_env_def sample_record_def Let_def

lemma sample_web_stage:
  "web_results (loads sample_env) [] sample_web_response =
     [(sample_id_a, Some (sample_record sample_id_a 100 (u ''Web API''))),
      (sample_id_b, Some (sample_record sample_id_b 50 (u ''Web API'')))]"
  by (simp add: batch_eval)

lemma sample_batch_run:
  "fetch_videos_batch sample_env [sample_id_a, sample_id_b, sample_id_c] =
     [(sample_id_a, Some (sample_record sample_id_a 80 (u ''App API''))),
      (sample_id_b, Some (sample_record sample_id_b 0 (u ''App API''))),
      (sample_id_c, None)]"
  by (simp add: batch_eval)

lemma unreachable_run:
  "batch_body unreachable_env [sample_id_a, sample_id_b] = Inl RequestFailed"
  by (simp add: batch_eval)

theorem fetch_videos_batch_keys_witness:
  "batch_body unreachable_env [sample_id_a, sample_id_b] = Inl RequestFailed \<and>
   fetch_videos_batch unreachable_env [sample_id_a, sample_id_b] =
     [(sample_id_a, None), (sample_id_b, None)] \<and>
   sample_id_c \<in> set [sample_id_a, sample_id_b, sample_id_c] \<and>
   map_of (fetch_videos_batch sample_env [sample_id_a, sample_id_b, sample_id_c]) sample_id_c =
     Some None"
proof -
  note inst = fetch_videos_batch_keys [of unreachable_env "[sample_id_a, sample_id_b]"]
  from inst unreachable_run
  have "fetch_videos_batch unreachable_env [sample_id_a, sample_id_b] =
      all_none [sample_id_a, sample_id_b]"
    by blast
  moreover have "all_none [sample_id_a, sample_id_b] = [(sample_id_a, None), (sample_id_b, None)]"
    by (simp add: batch_eval)
  moreover have
    "map_of (fetch_videos_batch sample_env [sample_id_a, sample_id_b, sample_id_c]) sample_id_c =
       Some None"
    unfolding sample_batch_run by (simp add: sample_id_a_def sample_id_b_def sample_id_c_def u_def)
  ultimately show ?thesis using unreachable_run by simp
qed

section \<open>Properties of the statistics merge\<close>

lemma get_int_dict_set: "get_int (dict_set d k v) k' = (if k' = k then v else get_int d k')"
  by (simp add: get_int_def map_of_dict_set_same map_of_dict_set_other)

lemma get_int_merge_statistic:
  assumes "0 \<le> get_int app key" and "0 \<le> get_int st key"
  shows "get_int (merge_statistic app st key) k =
           (if k = key then max (get_int app key) (get_int st key) else get_int st k)"
  using assms by (auto simp: merge_statistic_def Let_def get_int_dict_set)

lemma get_int_foldl_merge:
  assumes "\<forall>k. 0 \<le> get_int app k" and "\<forall>k. 0 \<le> get_int st k" and "distinct ks"
  shows "get_int (foldl (merge_statistic app) st ks) k =
           (if k \<in> set ks then max (get_int app k) (get_int st k) else get_int st k)"
  using assms
proof (induction ks arbitrary: st)
  case Nil
  then show ?case by simp
next
  case (Cons key ks)
  let ?st = "merge_statistic app st key"
  have step: "get_int ?st k' =
      (if k' = key then max (get_int app key) (get_int st key) else get_int st k')" for k'
    using Cons.prems(1,2) by (simp add: get_int_merge_statistic)
  then have nonneg: "\<forall>k'. 0 \<le> get_int ?st k'"
    using Cons.prems(1,2) by (simp add: max_def)
  from Cons.prems(3) have d: "distinct ks" and n: "key \<notin> set ks" by simp_all
  from Cons.IH [OF Cons.prems(1) nonneg d]
  have "get_int (foldl (merge_statistic app) ?st ks) k =
      (if k \<in> set ks then max (get_int app k) (get_int ?st k) else get_int ?st k)" .
  with step n show ?case by auto
qed

lemma stat_keys_distinct: "distinct stat_keys"
  by (simp add: stat_keys_def u_def)

lemma supplement_statistics_max:
  assumes "\<forall>k. 0 \<le> get_int app_stats k" and "\<forall>k. 0 \<le> get_int statistics k"
    and "key \<in> set stat_keys"
  shows "get_int (supplement_statistics app_stats statistics) key =
           max (get_int app_stats key) (get_int statistics key)"
  using get_int_foldl_merge [OF assms(1,2) stat_keys_distinct, of key] assms(3)
  by (simp add: supplement_statistics_def)

text \<open>
  C1 at a concrete input. On the single-video path the merge keeps the maximum:
  Web API counters play 100 and like 0 with App API counters play 80 and like 5 give
  play 100 and like 5, and an App API play count of 0 leaves a Web API play count of
  50 as it is. On the batch path the Web API reports play counts 100 and 50 for two
  videos and the App API reports 80 and 0: the batch stores 80 and 0, the App API
  values, not the maxima 100 and 50, and a zero has replaced a positive value.
\<close>

theorem batch_play_count_not_max:
  "supplement_statistics [(u ''play_count'', 80), (u ''digg_count'', 5)]
       [(u ''play_count'', 100), (u ''digg_count'', 0)] =
     [(u ''play_count'', 100), (u ''digg_count'', 5)] \<and>
   supplement_statistics [(u ''play_count'', 0)] [(u ''play_count'', 50)] =
     [(u ''play_count'', 50)] \<and>
   web_results (loads sample_env) [] sample_web_response =
     [(sample_id_a, Some (sample_record sample_id_a 100 (u ''Web API''))),
      (sample_id_b, Some (sample_record sample_id_b 50 (u ''Web API'')))] \<and>
   fetch_videos_batch sample_env [sample_id_a, sample_id_b, sample_id_c] =
     [(sample_id_a, Some (sample_record sample_id_a 80 (u ''App API''))),
      (sample_id_b, Some (sample_record sample_id_b 0 (u ''App API''))),
      (sample_id_c, None)]"
proof -
  have a: "supplement_statistics [(u ''play_count'', 80), (u ''digg_count'', 5)]
       [(u ''play_count'', 100), (u ''digg_count'', 0)] =
     [(u ''play_count'', 100), (u ''digg_count'', 5)]"
    by (simp add: supplement_statistics_def stat_keys_def merge_statistic_def get_int_def
        dict_set_def u_def Let_def)
  have b: "supplement_statistics [(u ''play_count'', 0)] [(u ''play_count'', 50)] =
     [(u ''play_count'', 50)]"
    by (simp add: supplement_statistics_def stat_keys_def merge_statistic_def get_int_def
        dict_set_def u_def Let_def)
  from a b sample_web_stage sample_batch_run show ?thesis by blast
qed

section \<open>Properties of the single fetch\<close>

lemma is_web_request_simps:
  "is_web_request (WebRequest n) = True" "is_web_request (MobileRequest n) = False"
  "is_web_request (Sleep n) = False"
  by (simp_all add: is_web_request_def)

lemma is_sleep_simps:
  "is_sleep (WebRequest n) = False" "is_sleep (MobileRequest n) = False"
  "is_sleep (Sleep n) = True"
  by (simp_all add: is_sleep_def)

lemma attempt_pass_events:
  "fst (attempt_pass env attempt aweme_id) = [WebRequest attempt] \<or>
   fst (attempt_pass env attempt aweme_id) = [WebRequest attempt, MobileRequest attempt]"
  by (simp add: attempt_pass_def split: sum.splits exn.splits option.splits)

lemma attempt_pass_web: "length (filter is_web_request (fst (attempt_pass env attempt aweme_id))) = 1"
  using attempt_pass_events [of env attempt aweme_id] by (auto simp: is_web_request_simps)

lemma attempt_pass_no_sleep: "filter is_sleep (fst (attempt_pass env attempt aweme_id)) = []"
  using attempt_pass_events [of env attempt aweme_id] by (auto simp: is_sleep_simps)

lemma attempt_pass_no_sleep_mem: "Sleep d \<notin> set (fst (attempt_pass env attempt aweme_id))"
  using attempt_pass_events [of env attempt aweme_id] by auto

lemma request_loop_Suc:
  "fst (request_loop env aweme_id attempt (Suc left)) =
     (case snd (attempt_pass env attempt aweme_id) of
        Continue r \<Rightarrow>
          fst (attempt_pass env attempt aweme_id) @ (if attempt < 2 then [Sleep 2] else []) @
          fst (request_loop env aweme_id (Suc attempt) left)
      | _ \<Rightarrow> fst (attempt_pass env attempt aweme_id))"
  by (cases "attempt_pass env attempt aweme_id")
     (simp split: pass_end.splits prod.splits)

lemma request_loop_web:
  "length (filter is_web_request (fst (request_loop env aweme_id attempt left))) \<le> left"
proof (induction left arbitrary: attempt)
  case 0
  then show ?case by simp
next
  case (Suc left)
  from Suc [of "Suc attempt"] attempt_pass_web [of env attempt aweme_id]
  show ?case
    by (simp add: request_loop_Suc is_web_request_simps del: request_loop.simps
        split: pass_end.splits)
qed

lemma request_loop_sleep_length:
  "Sleep d \<in> set (fst (request_loop env aweme_id attempt left)) \<Longrightarrow> d = 2"
proof (induction left arbitrary: attempt)
  case 0
  then show ?case by simp
next
  case (Suc left)
  then show ?case
    using attempt_pass_no_sleep_mem [of d env attempt aweme_id]
    by (auto simp: request_loop_Suc simp del: request_loop.simps
        split: pass_end.splits if_splits)
qed

lemma request_loop_sleeps:
  "length (filter is_sleep (fst (request_loop env aweme_id attempt left))) \<le> 2 - attempt"
proof (induction left arbitrary: attempt)
  case 0
  then show ?case by simp
next
  case (Suc left)
  from Suc [of "Suc attempt"] attempt_pass_no_sleep [of env attempt aweme_id]
  show ?case
    by (auto simp: request_loop_Suc is_sleep_simps simp del: request_loop.simps
        split: pass_end.splits)
qed

lemma fetch_video_events:
  "\<exists>aweme_id. fst (fetch_video env url) = [] \<or>
     fst (fetch_video env url) = fst (request_loop env aweme_id 0 3)"
proof (cases "api_url env")
  case None
  then show ?thesis by (simp add: fetch_video_def)
next
  case (Some api)
  show ?thesis
  proof (cases "extract_aweme_id (head_request env) url")
    case None
    with Some show ?thesis by (simp add: fetch_video_def)
  next
    case (Some aweme_id)
    obtain evs ending where r: "request_loop env aweme_id 0 3 = (evs, ending)"
      by (cases "request_loop env aweme_id 0 3")
    have "fst (fetch_video env url) = [] \<or>
        fst (fetch_video env url) = fst (request_loop env aweme_id 0 3)"
      using \<open>api_url env = Some api\<close> Some r
      by (cases ending) (simp_all add: fetch_video_def)
    then show ?thesis by blast
  qed
qed

lemma attempt_pass_failure:
  "connection_failure (web_get env attempt aweme_id) \<Longrightarrow>
     attempt_pass env attempt aweme_id = ([WebRequest attempt], Continue None)"
  by (auto simp: connection_failure_def attempt_pass_def)

lemma request_loop_all_fail:
  assumes "\<forall>attempt<3. connection_failure (web_get env attempt aweme_id)"
  shows "request_loop env aweme_id 0 3 =
           ([WebRequest 0, Sleep 2, WebRequest 1, Sleep 2, WebRequest 2], Continue None)"
proof -
  have a0: "attempt_pass env 0 aweme_id = ([WebRequest 0], Continue None)"
    and a1: "attempt_pass env (Suc 0) aweme_id = ([WebRequest (Suc 0)], Continue None)"
    and a2: "attempt_pass env (Suc (Suc 0)) aweme_id =
      ([WebRequest (Suc (Suc 0))], Continue None)"
    using assms by (simp_all add: attempt_pass_failure)
  have l2: "request_loop env aweme_id (Suc (Suc 0)) (Suc 0) =
      ([WebRequest (Suc (Suc 0))], Continue None)"
    unfolding request_loop.simps a2 by simp
  have l1: "request_loop env aweme_id (Suc 0) (Suc (Suc 0)) =
      ([WebRequest (Suc 0), Sleep 2, WebRequest (Suc (Suc 0))], Continue None)"
    unfolding request_loop.simps(2) [of env aweme_id "Suc 0" "Suc 0"] a1 l2 by simp
  have l0: "request_loop env aweme_id 0 (Suc (Suc (Suc 0))) =
      ([WebRequest 0, Sleep 2, WebRequest (Suc 0), Sleep 2, WebRequest (Suc (Suc 0))],
       Continue None)"
    unfolding request_loop.simps(2) [of env aweme_id 0 "Suc (Suc 0)"] a0 l1 by simp
  have e3: "request_loop env aweme_id 0 3 = request_loop env aweme_id 0 (Suc (Suc (Suc 0)))"
    by (simp only: numeral_3_eq_3)
  show ?thesis unfolding e3 l0 by simp
qed

lemma mark_missing_all_fail:
  "\<forall>url. fetch_single benv url = None \<Longrightarrow> \<exists>res'. mark_missing benv res ids = Inr res'"
  by (induction benv res ids rule: mark_missing.induct) (simp_all add: Let_def)

text \<open>
  C8. \<^verbatim>\<open>fetch_video\<close> sends the metadata request at most 3 times and sleeps at most twice,
  each time for the same 2 seconds. When each of the three requests fails with a
  timeout or another connection error, the function makes exactly three requests
  with a sleep of 2 between them and returns \<^verbatim>\<open>None\<close>; it has no way to raise, as every
  exception of the loop is an outcome of the model. In the batch, a single fetch that
  returns \<^verbatim>\<open>None\<close> never ends the fallback loop with an exception.
\<close>

theorem fetch_video_retries:
  "length (filter is_web_request (fst (fetch_video env url))) \<le> 3 \<and>
   length (filter is_sleep (fst (fetch_video env url))) \<le> 2 \<and>
   (\<forall>d. Sleep d \<in> set (fst (fetch_video env url)) \<longrightarrow> d = 2) \<and>
   (\<forall>api aweme_id.
      api_url env = Some api \<and> api \<noteq> [] \<and>
      extract_aweme_id (head_request env) url = Some aweme_id \<and>
      (\<forall>attempt<3. connection_failure (web_get env attempt aweme_id)) \<longrightarrow>
      fetch_video env url =
        ([WebRequest 0, Sleep 2, WebRequest 1, Sleep 2, WebRequest 2], None)) \<and>
   (\<forall>benv res ids. (\<forall>fallback_url. fetch_single benv fallback_url = None) \<longrightarrow>
      (\<exists>res'. mark_missing benv res ids = Inr res'))"
proof (intro conjI allI impI)
  show "length (filter is_web_request (fst (fetch_video env url))) \<le> 3"
    using fetch_video_events [of env url] request_loop_web [of env _ 0 3] by auto
  show "length (filter is_sleep (fst (fetch_video env url))) \<le> 2"
    using fetch_video_events [of env url] request_loop_sleeps [of env _ 0 3] by force
next
  fix d
  assume "Sleep d \<in> set (fst (fetch_video env url))"
  then show "d = 2"
    using fetch_video_events [of env url] request_loop_sleep_length [of d env _ 0 3] by auto
next
  fix api aweme_id
  assume "api_url env = Some api \<and> api \<noteq> [] \<and>
      extract_aweme_id (head_request env) url = Some aweme_id \<and>
      (\<forall>attempt<3. connection_failure (web_get env attempt aweme_id))"
  then show "fetch_video env url =
        ([WebRequest 0, Sleep 2, WebRequest 1, Sleep 2, WebRequest 2], None)"
    by (simp add: fetch_video_def request_loop_all_fail)
next
  fix benv :: batch_env and res ids
  assume "\<forall>fallback_url. fetch_single benv fallback_url = None"
  then show "\<exists>res'. mark_missing benv res ids = Inr res'"
    by (rule mark_missing_all_fail)
qed

theorem fetch_video_retries_witness:
  "extract_aweme_id (head_request timeout_env) url_with_19_digits =
     Some (u ''7567352731951164082'') \<and>
   connection_failure (web_get timeout_env 0 (u ''7567352731951164082'')) \<and>
   fetch_video timeout_env url_with_19_digits =
     ([WebRequest 0, Sleep 2, WebRequest 1, Sleep 2, WebRequest 2], None)"
proof -
  have e: "extract_aweme_id (head_request timeout_env) url_with_19_digits =
      Some (u ''7567352731951164082'')"
    by (simp add: timeout_env_def extractor_eval url_with_19_digits_def)
  have a: "api_url timeout_env =
      Some (u ''https://api.tikhub.io/api/v1/douyin/web/fetch_video_detail'')"
    and n: "u ''https://api.tikhub.io/api/v1/douyin/web/fetch_video_detail'' \<noteq> []"
    by (simp_all add: timeout_env_def u_def)
  have c: "\<forall>attempt<3. connection_failure
      (web_get timeout_env attempt (u ''7567352731951164082''))"
    by (simp add: timeout_env_def connection_failure_def)
  from fetch_video_retries [of timeout_env url_with_19_digits] a n e c
  have "fetch_video timeout_env url_with_19_digits =
     ([WebRequest 0, Sleep 2, WebRequest 1, Sleep 2, WebRequest 2], None)"
    by blast
  with e c show ?thesis by simp
qed

end
